theory Spec2Isabelle
  imports Main
begin

section \<open>JavaScript values\<close>

text \<open>
  The values that flow through selectors at run time. Objects carry their identity (a
  reference number) next to their own properties, in insertion order: \<open>===\<close> on two
  objects compares the references only, so a fresh object with the same properties is a
  different value for the caches. The state objects handed to selectors are not mutated
  by the library, which is why the properties can travel with the reference.
  \<open>VNaN\<close> is the one number that is not \<open>===\<close> to itself.
\<close>

datatype val =
    VUndefined
  | VNull
  | VBool bool
  | VNum int
  | VNaN
  | VStr string
  | VObj nat "(string \<times> val) list"
  | VFun nat

text \<open>What a \<open>throw\<close> carries: the library's own \<open>new Error(msg)\<close>, the engine's
  \<open>TypeError\<close>, or whatever a user function throws.\<close>

datatype exn = Error string | TypeError string | Thrown val

text \<open>A JavaScript function called with an argument list: it may read and change the
  world \<open>'w\<close> it closes over, and it either returns a value or throws.\<close>

type_synonym 'w jsfun = "val list \<Rightarrow> 'w \<Rightarrow> (exn + val) \<times> 'w"

text \<open>An equality strategy \<open>(a, b) => boolean\<close>: a pure predicate.\<close>

type_synonym equalityFn = "val \<Rightarrow> val \<Rightarrow> bool"

text \<open>\<open>a === b\<close>.\<close>

fun strict_eq :: "val \<Rightarrow> val \<Rightarrow> bool" where
  "strict_eq VNaN b = False"
| "strict_eq a VNaN = False"
| "strict_eq (VObj i ps) (VObj j qs) = (i = j)"
| "strict_eq a b = (a = b)"

text \<open>\<open>b[index]\<close>: reading an array past its end gives \<open>undefined\<close>.\<close>

definition at_index :: "val list \<Rightarrow> nat \<Rightarrow> val" where
  "at_index b index = (if index < length b then b ! index else VUndefined)"

text \<open>\<open>Array.prototype.every\<close> with a callback of the element and its index: it stops
  at the first element that fails, and is true of the empty array.\<close>

fun every_from :: "nat \<Rightarrow> ('a \<Rightarrow> nat \<Rightarrow> bool) \<Rightarrow> 'a list \<Rightarrow> bool" where
  "every_from i p [] = True"
| "every_from i p (x # xs) = (if p x i then every_from (Suc i) p xs else False)"

definition every :: "('a \<Rightarrow> nat \<Rightarrow> bool) \<Rightarrow> 'a list \<Rightarrow> bool" where
  "every p xs = every_from 0 p xs"


section \<open>The single-slot memoizer\<close>

text \<open>
  \<^verbatim>\<open>
  export function defaultValueEquals(a, b) { return a === b; }

  function argsEquals(a, b, valueEquals) {
      return a.every((value, index) => valueEquals(value, b[index]));
  }
  \<close>
\<close>

definition defaultValueEquals :: equalityFn where
  "defaultValueEquals a b = strict_eq a b"

definition argsEquals :: "val list \<Rightarrow> val list \<Rightarrow> equalityFn \<Rightarrow> bool" where
  "argsEquals a b valueEquals = every (\<lambda>value index. valueEquals value (at_index b index)) a"

text \<open>
  \<^verbatim>\<open>
  function internalMemoize(func, valueEquals) {
      let lastArgs = null;
      let lastResult = null;
      return (args) => {
          if (lastArgs !== null && argsEquals(args, lastArgs, valueEquals)) {
              return lastResult;
          }
          lastArgs = args;
          lastResult = func(...args);
          return lastResult;
      }
  }
  \<close>
  The two variables of the closure are the record \<open>slot\<close>; \<open>None\<close> is the \<open>null\<close>
  that only \<open>lastArgs\<close> can hold before the first call. The returned closure is
  \<open>internalMemoize func valueEquals\<close>, a function of the arguments, its slot and the
  world of the wrapped function. The wrapped function does not reach the slot (it does not
  call its own memoized version). When \<open>func\<close> throws, the assignment to \<open>lastArgs\<close>
  has happened and the one to \<open>lastResult\<close> has not.
\<close>

record slot =
  lastArgs :: "val list option"
  lastResult :: val

definition new_slot :: slot where
  "new_slot = \<lparr>lastArgs = None, lastResult = VNull\<rparr>"

definition internalMemoize ::
  "'w jsfun \<Rightarrow> equalityFn \<Rightarrow> val list \<Rightarrow> slot \<Rightarrow> 'w \<Rightarrow> (exn + val) \<times> slot \<times> 'w" where
  "internalMemoize func valueEquals args c w =
     (if lastArgs c \<noteq> None \<and> argsEquals args (the (lastArgs c)) valueEquals
      then (Inr (lastResult c), c, w)
      else
        let c1 = c\<lparr>lastArgs := Some args\<rparr> in
        (case func args w of
           (Inl e, w') \<Rightarrow> (Inl e, c1, w')
         | (Inr v, w') \<Rightarrow> (Inr v, c1\<lparr>lastResult := v\<rparr>, w')))"

text \<open>
  \<^verbatim>\<open>
  export function memoize(func, valueEquals = defaultValueEquals) {
     let memoizedFunc = internalMemoize(func, valueEquals);
     return (...args) => memoizedFunc(args);
  }
  \<close>
  An absent (or \<open>undefined\<close>) second argument is \<open>None\<close>.
\<close>

definition memoize ::
  "'w jsfun \<Rightarrow> equalityFn option \<Rightarrow> val list \<Rightarrow> slot \<Rightarrow> 'w \<Rightarrow> (exn + val) \<times> slot \<times> 'w" where
  "memoize func valueEquals =
     internalMemoize func (case valueEquals of None \<Rightarrow> defaultValueEquals | Some eq \<Rightarrow> eq)"

text \<open>A wrapped function under observation, as the tests do with \<open>called++\<close>: the
  world is paired with the number of invocations so far.\<close>

definition counted :: "'w jsfun \<Rightarrow> (nat \<times> 'w) jsfun" where
  "counted func args cw =
     (case func args (snd cw) of (r, w') \<Rightarrow> (r, (Suc (fst cw), w')))"

text \<open>Two argument tuples are pairwise equal: same length, and each position of the
  incoming tuple is equal, by the strategy, to the same position of the earlier one.\<close>

definition pairwise_equal :: "equalityFn \<Rightarrow> val list \<Rightarrow> val list \<Rightarrow> bool" where
  "pairwise_equal valueEquals a b =
     (length a = length b \<and> list_all2 valueEquals a b)"


section \<open>The world of a selector\<close>

text \<open>
  \<^verbatim>\<open>
  type StabilityCheck = 'always' | 'once' | 'never'
  let globalStabilityCheck: StabilityCheck = 'once'
  export function setInputStabilityCheckEnabled(enabled: StabilityCheck) {
    globalStabilityCheck = enabled
  }
  \<close>
  The world holds what is shared by all selectors of the process: the global setting, whether
  \<open>process.env.NODE_ENV\<close> is \<open>'production'\<close>, what \<open>console.warn\<close> has been
  given so far, the next object reference to hand out, and whatever the user's own
  functions keep (\<open>'u\<close>).
\<close>

datatype StabilityCheck = Always | Once | Never

datatype warning = Warning (arguments: "val list") (firstInputs: "val list") (secondInputs: "val list")

record 'u world =
  globalStabilityCheck :: StabilityCheck
  production :: bool
  console :: "warning list"
  nextRef :: nat
  user :: 'u

definition initial_world :: "'u \<Rightarrow> 'u world" where
  "initial_world u =
     \<lparr>globalStabilityCheck = Once, production = False, console = [], nextRef = 0, user = u\<rparr>"

definition setInputStabilityCheckEnabled :: "StabilityCheck \<Rightarrow> 'u world \<Rightarrow> 'u world" where
  "setInputStabilityCheckEnabled enabled w = w\<lparr>globalStabilityCheck := enabled\<rparr>"

text \<open>An object literal: a new reference each time it is evaluated.\<close>

definition new_object :: "(string \<times> val) list \<Rightarrow> 'u world \<Rightarrow> val \<times> 'u world" where
  "new_object props w = (VObj (nextRef w) props, w\<lparr>nextRef := Suc (nextRef w)\<rparr>)"

definition console_warn :: "warning \<Rightarrow> 'u world \<Rightarrow> 'u world" where
  "console_warn msg w = w\<lparr>console := console w @ [msg]\<rparr>"


section \<open>What \<open>createSelector\<close> may be handed\<close>

text \<open>
  \<open>createSelector\<close> inspects its arguments with \<open>typeof\<close> and \<open>Array.isArray\<close>,
  so they are modelled as they arrive: any primitive, a function with its \<open>name\<close>, an
  array, an options object (the interface \<open>CreateSelectorOptions\<close>, with the options
  of the single-slot memoizer: its equality function), or a plain object of named entries.
  \<^verbatim>\<open>
  export interface CreateSelectorOptions<MemoizeOptions extends unknown[]> {
    memoizeOptions?: MemoizeOptions[0] | MemoizeOptions
    inputStabilityCheck?: StabilityCheck
  }
  \<close>
  By convention a plain object \<open>AObj\<close> has no entry named \<open>memoizeOptions\<close> or
  \<open>inputStabilityCheck\<close>: an object that has them is an \<open>AOptions\<close>.
\<close>

datatype memoizeOptionsArg = FirstOption equalityFn | OptionsArray "equalityFn list"

record createSelectorOptions =
  memoizeOptions :: "memoizeOptionsArg option"
  inputStabilityCheck :: "StabilityCheck option"

definition no_options :: createSelectorOptions where
  "no_options = \<lparr>memoizeOptions = None, inputStabilityCheck = None\<rparr>"

datatype 'u jsarg =
    AUndefined
  | ANull
  | ABool bool
  | ANum int
  | AStr string
  | AFunc string "val list \<Rightarrow> 'u world \<Rightarrow> (exn + val) \<times> 'u world"
  | AArr "'u jsarg list"
  | AOptions createSelectorOptions
  | AObj "(string \<times> 'u jsarg) list"

fun typeof :: "'u jsarg \<Rightarrow> string" where
  "typeof AUndefined = ''undefined''"
| "typeof ANull = ''object''"
| "typeof (ABool b) = ''boolean''"
| "typeof (ANum n) = ''number''"
| "typeof (AStr s) = ''string''"
| "typeof (AFunc name f) = ''function''"
| "typeof (AArr xs) = ''object''"
| "typeof (AOptions opts) = ''object''"
| "typeof (AObj entries) = ''object''"

text \<open>The function behind an argument whose \<open>typeof\<close> is \<open>'function'\<close>.\<close>

fun as_function :: "'u jsarg \<Rightarrow> 'u world jsfun option" where
  "as_function (AFunc name f) = Some f"
| "as_function a = None"

text \<open>\<open>funcs.pop()\<close>: the last element, removed; \<open>undefined\<close> from an empty array.\<close>

definition pop :: "'u jsarg list \<Rightarrow> 'u jsarg \<times> 'u jsarg list" where
  "pop funcs = (if funcs = [] then (AUndefined, []) else (last funcs, butlast funcs))"

text \<open>\<open>Array.prototype.join\<close>.\<close>

fun join :: "string \<Rightarrow> string list \<Rightarrow> string" where
  "join sep [] = []"
| "join sep [s] = s"
| "join sep (s # t # ss) = s @ sep @ join sep (t # ss)"


section \<open>\<open>getDependencies\<close>\<close>

text \<open>
  \<^verbatim>\<open>
  function getDependencies(funcs: unknown[]) {
    const dependencies = Array.isArray(funcs[0]) ? funcs[0] : funcs
    if (!dependencies.every(dep => typeof dep === 'function')) {
      const dependencyTypes = dependencies
        .map(dep =>
          typeof dep === 'function'
            ? `function ${dep.name || 'unnamed'}()`
            : typeof dep
        )
        .join(', ')
      throw new Error(
        `createSelector expects all input-selectors to be functions, but received the following types: [${dependencyTypes}]`
      )
    }
    return dependencies as SelectorArray
  }
  \<close>
\<close>

text \<open>\<open>Array.isArray(funcs[0]) ? funcs[0] : funcs\<close>\<close>

definition dependencies_of :: "'u jsarg list \<Rightarrow> 'u jsarg list" where
  "dependencies_of funcs = (case funcs of AArr deps # rest \<Rightarrow> deps | _ \<Rightarrow> funcs)"

fun dependencyType :: "'u jsarg \<Rightarrow> string" where
  "dependencyType (AFunc name f) =
     ''function '' @ (if name = [] then ''unnamed'' else name) @ ''()''"
| "dependencyType dep = typeof dep"

definition getDependencies :: "'u jsarg list \<Rightarrow> exn + 'u world jsfun list" where
  "getDependencies funcs =
     (let dependencies = dependencies_of funcs in
      if \<not> every (\<lambda>dep index. typeof dep = ''function'') dependencies
      then Inl (Error (''createSelector expects all input-selectors to be functions, but received the following types: [''
                       @ join '', '' (map dependencyType dependencies) @ '']''))
      else Inr (List.map_filter as_function dependencies))"


section \<open>\<open>createSelectorCreator\<close> and the output selector\<close>

text \<open>
  The variables an output selector closes over and changes: \<open>recomputations\<close>,
  \<open>lastResult\<close> (\<open>undefined\<close> until the first result), \<open>firstRun\<close>, and the slots of
  its three memoized functions: \<open>memoizedResultFunc\<close>, \<open>makeAnObject\<close> and the
  selector itself.
\<close>

record selectorState =
  recomputations :: nat
  lastResultVar :: val
  firstRun :: bool
  memoizedResultFunc_slot :: slot
  makeAnObject_slot :: slot
  selector_slot :: slot

definition new_selectorState :: selectorState where
  "new_selectorState =
     \<lparr>recomputations = 0, lastResultVar = VUndefined, firstRun = True,
      memoizedResultFunc_slot = new_slot, makeAnObject_slot = new_slot,
      selector_slot = new_slot\<rparr>"

text \<open>A function that closes over the variables of a selector.\<close>

type_synonym 'u closure =
  "val list \<Rightarrow> selectorState \<Rightarrow> 'u world \<Rightarrow> (exn + val) \<times> selectorState \<times> 'u world"

text \<open>What \<open>Object.assign\<close> puts on the selector: the user's function as it is, an
  array of the user's functions, or a function of the selector's own.\<close>

datatype 'u property =
    PFunction "val list \<Rightarrow> 'u world \<Rightarrow> (exn + val) \<times> 'u world"
  | PArray "(val list \<Rightarrow> 'u world \<Rightarrow> (exn + val) \<times> 'u world) list"
  | PClosure "val list \<Rightarrow> selectorState \<Rightarrow> 'u world \<Rightarrow> (exn + val) \<times> selectorState \<times> 'u world"

text \<open>The output selector: the constants of its closure, and its properties by name, in the
  order in which they were assigned.\<close>

record 'u outputSelector =
  the_resultFunc :: "'u world jsfun"
  the_dependencies :: "'u world jsfun list"
  finalMemoizeOptions :: "equalityFn list"
  the_inputStabilityCheck :: "StabilityCheck option"
  properties :: "(string \<times> 'u property) list"

text \<open>\<open>memoize(func, ...finalMemoizeOptions)\<close>: the memoizer takes its equality
  function from the first option, when there is one.\<close>

definition first_option :: "equalityFn list \<Rightarrow> equalityFn option" where
  "first_option opts = (case opts of [] \<Rightarrow> None | eq # rest \<Rightarrow> Some eq)"

text \<open>
  \<^verbatim>\<open>
    const memoizedResultFunc = memoize(
      function recomputationWrapper() {
        recomputations++
        return resultFunc!.apply(null, arguments)
      } as F,
      ...finalMemoizeOptions
    )
  \<close>
  The module \<open>./defaultMemoize\<close> that \<open>index.ts\<close> imports is not among the sources.
  The memoizer of the repository that is, \<open>memoize\<close> above, which the tests import as
  \<open>defaultMemoize\<close>, is the one \<open>createSelectorCreator\<close> is applied to here.
\<close>

definition recomputationWrapper :: "'w jsfun \<Rightarrow> (nat \<times> 'w) jsfun" where
  "recomputationWrapper resultFunc args nw =
     (case resultFunc args (snd nw) of (r, w') \<Rightarrow> (r, (Suc (fst nw), w')))"

definition memoizedResultFunc :: "'u world jsfun \<Rightarrow> equalityFn list \<Rightarrow> 'u closure" where
  "memoizedResultFunc resultFunc opts args st w =
     (case memoize (recomputationWrapper resultFunc) (first_option opts) args
             (memoizedResultFunc_slot st) (recomputations st, w) of
        (r, c, (n, w')) \<Rightarrow> (r, st\<lparr>memoizedResultFunc_slot := c, recomputations := n\<rparr>, w'))"

text \<open>
  \<^verbatim>\<open>
    const makeAnObject: (...args: unknown[]) => object = memoize(
      () => ({}),
      ...finalMemoizeOptions
    )
  \<close>
\<close>

definition makeAnObject :: "equalityFn list \<Rightarrow> 'u closure" where
  "makeAnObject opts args st w =
     (case memoize (\<lambda>noargs w0. case new_object [] w0 of (obj, w1) \<Rightarrow> (Inr obj, w1))
             (first_option opts) args (makeAnObject_slot st) w of
        (r, c, w') \<Rightarrow> (r, st\<lparr>makeAnObject_slot := c\<rparr>, w'))"

text \<open>
  \<^verbatim>\<open>
      for (let i = 0; i < length; i++) {
        params.push(dependencies[i].apply(null, arguments))
      }
  \<close>
  A dependency that throws ends the loop and the call.
\<close>

fun apply_each :: "'w jsfun list \<Rightarrow> val list \<Rightarrow> 'w \<Rightarrow> (exn + val list) \<times> 'w" where
  "apply_each [] args w = (Inr [], w)"
| "apply_each (dep # deps) args w =
     (case dep args w of
        (Inl e, w1) \<Rightarrow> (Inl e, w1)
      | (Inr v, w1) \<Rightarrow>
          (case apply_each deps args w1 of
             (Inl e, w2) \<Rightarrow> (Inl e, w2)
           | (Inr vs, w2) \<Rightarrow> (Inr (v # vs), w2)))"

text \<open>
  \<^verbatim>\<open>
      const finalStabilityCheck = inputStabilityCheck ?? globalStabilityCheck
      if (
        process.env.NODE_ENV !== 'production' &&
        (finalStabilityCheck === 'always' ||
          (finalStabilityCheck === 'once' && firstRun))
      ) {
  \<close>
\<close>

definition finalStabilityCheck :: "StabilityCheck option \<Rightarrow> 'u world \<Rightarrow> StabilityCheck" where
  "finalStabilityCheck override w =
     (case override of Some check \<Rightarrow> check | None \<Rightarrow> globalStabilityCheck w)"

definition stabilityCheckDue :: "StabilityCheck option \<Rightarrow> selectorState \<Rightarrow> 'u world \<Rightarrow> bool" where
  "stabilityCheckDue override st w =
     (\<not> production w \<and>
      (finalStabilityCheck override w = Always \<or>
       (finalStabilityCheck override w = Once \<and> firstRun st)))"

text \<open>
  \<^verbatim>\<open>
        const paramsCopy = []
        for (let i = 0; i < length; i++) {
          paramsCopy.push(dependencies[i].apply(null, arguments))
        }
        const equal =
          makeAnObject.apply(null, params) ===
          makeAnObject.apply(null, paramsCopy)
        if (!equal) {
          console.warn('An input selector returned a different result ...',
            { arguments, firstInputs: params, secondInputs: paramsCopy })
        }
        if (firstRun) firstRun = false
  \<close>
  The body of the \<open>if\<close>: \<open>None\<close> when it runs to its end, \<open>Some e\<close> when something
  in it throws \<open>e\<close>.
\<close>

definition inputStabilityCheckBody ::
  "'u world jsfun list \<Rightarrow> equalityFn list \<Rightarrow> val list \<Rightarrow> val list \<Rightarrow> selectorState \<Rightarrow> 'u world
     \<Rightarrow> exn option \<times> selectorState \<times> 'u world" where
  "inputStabilityCheckBody deps opts args params st w =
     (case apply_each deps args w of
        (Inl e, w1) \<Rightarrow> (Some e, st, w1)
      | (Inr paramsCopy, w1) \<Rightarrow>
          (case makeAnObject opts params st w1 of
             (Inl e, st1, w2) \<Rightarrow> (Some e, st1, w2)
           | (Inr first, st1, w2) \<Rightarrow>
               (case makeAnObject opts paramsCopy st1 w2 of
                  (Inl e, st2, w3) \<Rightarrow> (Some e, st2, w3)
                | (Inr second, st2, w3) \<Rightarrow>
                    let equal = strict_eq first second;
                        w4 = (if \<not> equal then console_warn (Warning args params paramsCopy) w3
                              else w3);
                        st3 = (if firstRun st2 then st2\<lparr>firstRun := False\<rparr> else st2)
                    in (None, st3, w4))))"

text \<open>
  \<^verbatim>\<open>
    const selector = defaultMemoize(function dependenciesChecker() {
      const params = []
      const { length } = dependencies
      for (...) { params.push(dependencies[i].apply(null, arguments)) }
      const finalStabilityCheck = ...
      if (...) { ... }
      lastResult = memoizedResultFunc.apply(null, params)
      return lastResult
    } as F)
  \<close>
  The \<open>if\<close> statement is \<open>inputStabilityCheckStatement\<close>, the last two statements are
  \<open>compute_result\<close>: when \<open>memoizedResultFunc\<close> throws, \<open>lastResult\<close> keeps its
  value.
\<close>

definition inputStabilityCheckStatement ::
  "StabilityCheck option \<Rightarrow> 'u world jsfun list \<Rightarrow> equalityFn list \<Rightarrow> val list \<Rightarrow> val list
     \<Rightarrow> selectorState \<Rightarrow> 'u world \<Rightarrow> exn option \<times> selectorState \<times> 'u world" where
  "inputStabilityCheckStatement override deps opts args params st w =
     (if stabilityCheckDue override st w
      then inputStabilityCheckBody deps opts args params st w
      else (None, st, w))"

definition compute_result :: "'u outputSelector \<Rightarrow> 'u closure" where
  "compute_result sel params st w =
     (case memoizedResultFunc (the_resultFunc sel) (finalMemoizeOptions sel) params st w of
        (Inl e, st', w') \<Rightarrow> (Inl e, st', w')
      | (Inr v, st', w') \<Rightarrow> (Inr v, st'\<lparr>lastResultVar := v\<rparr>, w'))"

definition dependenciesChecker :: "'u outputSelector \<Rightarrow> 'u closure" where
  "dependenciesChecker sel args st w =
     (case apply_each (the_dependencies sel) args w of
        (Inl e, w1) \<Rightarrow> (Inl e, st, w1)
      | (Inr params, w1) \<Rightarrow>
          (case inputStabilityCheckStatement (the_inputStabilityCheck sel) (the_dependencies sel)
                  (finalMemoizeOptions sel) args params st w1 of
             (Some e, st2, w2) \<Rightarrow> (Inl e, st2, w2)
           | (None, st2, w2) \<Rightarrow> compute_result sel params st2 w2))"

text \<open>Calling the output selector: \<open>dependenciesChecker\<close> behind the single-slot
  memoizer with the default equality. The world of the wrapped function is the rest of the
  selector's state and the world.\<close>

definition call_selector :: "'u outputSelector \<Rightarrow> 'u closure" where
  "call_selector sel args st w =
     (case memoize (\<lambda>a sw. case dependenciesChecker sel a (fst sw) (snd sw) of
                              (r, st', w') \<Rightarrow> (r, (st', w')))
             None args (selector_slot st) (st, w) of
        (r, c, (st', w')) \<Rightarrow> (r, st'\<lparr>selector_slot := c\<rparr>, w'))"

text \<open>
  \<^verbatim>\<open>
    Object.assign(selector, {
      resultFunc,
      memoizedResultFunc,
      dependencies,
      lastResult: () => lastResult,
      recomputations: () => recomputations,
      resetRecomputations: () => (recomputations = 0)
    })
  \<close>
\<close>

definition lastResult_method :: "'u closure" where
  "lastResult_method args st w = (Inr (lastResultVar st), st, w)"

definition recomputations_method :: "'u closure" where
  "recomputations_method args st w = (Inr (VNum (int (recomputations st))), st, w)"

definition resetRecomputations_method :: "'u closure" where
  "resetRecomputations_method args st w = (Inr (VNum 0), st\<lparr>recomputations := 0\<rparr>, w)"

definition assigned_properties ::
  "'u world jsfun \<Rightarrow> 'u world jsfun list \<Rightarrow> equalityFn list \<Rightarrow> (string \<times> 'u property) list" where
  "assigned_properties resultFunc dependencies opts =
     [(''resultFunc'', PFunction resultFunc),
      (''memoizedResultFunc'', PClosure (memoizedResultFunc resultFunc opts)),
      (''dependencies'', PArray dependencies),
      (''lastResult'', PClosure lastResult_method),
      (''recomputations'', PClosure recomputations_method),
      (''resetRecomputations'', PClosure resetRecomputations_method)]"

text \<open>
  \<^verbatim>\<open>
    let directlyPassedOptions: CreateSelectorOptions<MemoizeOptions> = {}
    let resultFunc = funcs.pop()
    if (typeof resultFunc === 'object') {
      directlyPassedOptions = resultFunc as any
      resultFunc = funcs.pop()
    }
    if (typeof resultFunc !== 'function') {
      throw new Error(
        `createSelector expects an output function after the inputs, but received: [${typeof resultFunc}]`
      )
    }
    const { memoizeOptions = memoizeOptionsFromArgs, inputStabilityCheck } =
      directlyPassedOptions
    const finalMemoizeOptions = Array.isArray(memoizeOptions)
      ? memoizeOptions
      : ([memoizeOptions] as MemoizeOptions)
    const dependencies = getDependencies(funcs)
  \<close>
  Reading the two properties off what was taken for the options: \<open>null\<close> has
  \<open>typeof\<close> \<open>'object'\<close> and cannot be destructured (\<open>None\<close>: the engine throws a
  \<open>TypeError\<close>); an array or a plain object has neither property.
\<close>

fun read_options :: "'u jsarg \<Rightarrow> createSelectorOptions option" where
  "read_options ANull = None"
| "read_options (AOptions opts) = Some opts"
| "read_options a = Some no_options"

text \<open>The first lines: what is taken for the options, what for the result function, and
  what is left in \<open>funcs\<close>.\<close>

definition take_resultFunc :: "'u jsarg list \<Rightarrow> 'u jsarg \<times> 'u jsarg \<times> 'u jsarg list" where
  "take_resultFunc funcs =
     (let (last_arg, funcs1) = pop funcs in
      if typeof last_arg = ''object''
      then (last_arg, fst (pop funcs1), snd (pop funcs1))
      else (AOptions no_options, last_arg, funcs1))"

definition createSelectorCreator ::
  "equalityFn list \<Rightarrow> 'u jsarg list \<Rightarrow> exn + 'u outputSelector" where
  "createSelectorCreator memoizeOptionsFromArgs funcs =
     (case take_resultFunc funcs of
        (directlyPassedOptions, resultFunc, funcs2) \<Rightarrow>
          (case as_function resultFunc of
             None \<Rightarrow>
               Inl (Error (''createSelector expects an output function after the inputs, but received: [''
                           @ typeof resultFunc @ '']''))
           | Some resultFunc' \<Rightarrow>
               (case read_options directlyPassedOptions of
                  None \<Rightarrow>
                    Inl (TypeError ''Cannot destructure 'directlyPassedOptions' as it is null.'')
                | Some opts \<Rightarrow>
                    let finalOptions =
                          (case memoizeOptions opts of
                             None \<Rightarrow> memoizeOptionsFromArgs
                           | Some (OptionsArray eqs) \<Rightarrow> eqs
                           | Some (FirstOption eq) \<Rightarrow> [eq])
                    in (case getDependencies funcs2 of
                          Inl e \<Rightarrow> Inl e
                        | Inr dependencies \<Rightarrow>
                            Inr \<lparr>the_resultFunc = resultFunc',
                                 the_dependencies = dependencies,
                                 finalMemoizeOptions = finalOptions,
                                 the_inputStabilityCheck = inputStabilityCheck opts,
                                 properties =
                                   assigned_properties resultFunc' dependencies finalOptions\<rparr>))))"

text \<open>
  \<^verbatim>\<open>
  export const createSelector = createSelectorCreator(defaultMemoize)
  \<close>
\<close>

definition createSelector :: "'u jsarg list \<Rightarrow> exn + 'u outputSelector" where
  "createSelector = createSelectorCreator []"

text \<open>\<open>selector[name]\<close>: \<open>None\<close> when the selector has no such property.\<close>

definition property_named :: "string \<Rightarrow> 'u outputSelector \<Rightarrow> 'u property option" where
  "property_named name sel = map_of (properties sel) name"


section \<open>\<open>createStructuredSelector\<close>\<close>

text \<open>The decimal numeral of an array index, as \<open>Object.keys\<close> gives it.\<close>

fun decimal :: "nat \<Rightarrow> string" where
  "decimal n =
     (if n < 10 then [char_of (48 + n)]
      else decimal (n div 10) @ [char_of (48 + n mod 10)])"

text \<open>An options object seen as a plain object: the properties it has, as values.\<close>

definition equality_as_function :: "equalityFn \<Rightarrow> 'u world jsfun" where
  "equality_as_function eq args w = (Inr (VBool (eq (at_index args 0) (at_index args 1))), w)"

fun stabilityCheck_string :: "StabilityCheck \<Rightarrow> string" where
  "stabilityCheck_string Always = ''always''"
| "stabilityCheck_string Once = ''once''"
| "stabilityCheck_string Never = ''never''"

definition options_entries :: "createSelectorOptions \<Rightarrow> (string \<times> 'u jsarg) list" where
  "options_entries opts =
     (case memoizeOptions opts of
        None \<Rightarrow> []
      | Some (FirstOption eq) \<Rightarrow> [(''memoizeOptions'', AFunc ''memoizeOptions'' (equality_as_function eq))]
      | Some (OptionsArray eqs) \<Rightarrow>
          [(''memoizeOptions'', AArr (map (\<lambda>eq. AFunc [] (equality_as_function eq)) eqs))])
     @ (case inputStabilityCheck opts of
          None \<Rightarrow> []
        | Some check \<Rightarrow> [(''inputStabilityCheck'', AStr (stabilityCheck_string check))])"

text \<open>An array index as a property name: the canonical decimal numeral of an integer
  from 0 to \<open>2^32 - 2\<close> (no sign, no leading zero).\<close>

definition is_digit :: "char \<Rightarrow> bool" where
  "is_digit c = (48 \<le> (of_char c :: int) \<and> (of_char c :: int) \<le> 57)"

definition array_index :: "string \<Rightarrow> int option" where
  "array_index key =
     (if key \<noteq> [] \<and> list_all is_digit key \<and> (length key = 1 \<or> hd key \<noteq> CHR ''0'')
      then (let n = foldl (\<lambda>acc c. 10 * acc + (of_char c - 48)) 0 key
            in if n < 4294967295 then Some n else None)
      else None)"

text \<open>The order in which \<open>Object.keys\<close> lists own properties: the array indices first,
  in ascending numeric order, then the other names in the order in which they were
  created. An object has each of its properties once, so the names of the entries are
  distinct.\<close>

definition own_property_order :: "(string \<times> 'a) list \<Rightarrow> (string \<times> 'a) list" where
  "own_property_order entries =
     sort_key (\<lambda>entry. the (array_index (fst entry)))
        (filter (\<lambda>entry. array_index (fst entry) \<noteq> None) entries)
     @ filter (\<lambda>entry. array_index (fst entry) = None) entries"

text \<open>The own enumerable properties that \<open>Object.keys\<close> and \<open>selectors[key]\<close> see,
  in the order of \<open>Object.keys\<close>. An \<open>AObj\<close> holds its entries in the order in which
  they were written. \<open>Object.keys(null)\<close> throws a \<open>TypeError\<close>: \<open>None\<close>. The last
  equation is for the primitives, which \<open>createStructuredSelector\<close> has turned away
  before.\<close>

fun own_entries :: "'u jsarg \<Rightarrow> (string \<times> 'u jsarg) list option" where
  "own_entries ANull = None"
| "own_entries AUndefined = None"
| "own_entries (AObj entries) = Some (own_property_order entries)"
| "own_entries (AArr xs) = Some (zip (map decimal [0..<length xs]) xs)"
| "own_entries (AOptions opts) = Some (options_entries opts)"
| "own_entries a = Some []"

definition property_of :: "(string \<times> 'u jsarg) list \<Rightarrow> string \<Rightarrow> 'u jsarg" where
  "property_of entries key = (case map_of entries key of Some v \<Rightarrow> v | None \<Rightarrow> AUndefined)"

text \<open>\<open>composition[key] = value\<close> on an object: a property that exists keeps its place,
  a new one comes last.\<close>

fun update_entry :: "string \<Rightarrow> val \<Rightarrow> (string \<times> val) list \<Rightarrow> (string \<times> val) list" where
  "update_entry key v [] = [(key, v)]"
| "update_entry key v (p # ps) = (if fst p = key then (key, v) # ps else p # update_entry key v ps)"

fun set_property :: "val \<Rightarrow> string \<Rightarrow> val \<Rightarrow> val" where
  "set_property (VObj ref props) key v = VObj ref (update_entry key v props)"
| "set_property other key v = other"

text \<open>\<open>objectKeys[index]\<close> as a property name: past the end it is \<open>undefined\<close>, which
  names the property \<open>'undefined'\<close>.\<close>

definition key_at :: "string list \<Rightarrow> nat \<Rightarrow> string" where
  "key_at objectKeys index = (if index < length objectKeys then objectKeys ! index else ''undefined'')"

text \<open>
  \<^verbatim>\<open>
    (...values: any[]) => {
      return values.reduce((composition, value, index) => {
        composition[objectKeys[index]] = value
        return composition
      }, {})
    }
  \<close>
\<close>

fun reduce_from ::
  "nat \<Rightarrow> ('b \<Rightarrow> 'a \<Rightarrow> nat \<Rightarrow> 'b) \<Rightarrow> 'b \<Rightarrow> 'a list \<Rightarrow> 'b" where
  "reduce_from i f acc [] = acc"
| "reduce_from i f acc (x # xs) = reduce_from (Suc i) f (f acc x i) xs"

definition structuredCombiner :: "string list \<Rightarrow> 'u world jsfun" where
  "structuredCombiner objectKeys values w =
     (case new_object [] w of
        (composition0, w') \<Rightarrow>
          (Inr (reduce_from 0
                  (\<lambda>composition value index. set_property composition (key_at objectKeys index) value)
                  composition0 values),
           w'))"

text \<open>
  \<^verbatim>\<open>
  export const createStructuredSelector = ((
    selectors: SelectorsObject,
    selectorCreator = createSelector
  ) => {
    if (typeof selectors !== 'object') {
      throw new Error(
        'createStructuredSelector expects first argument to be an object ' +
          `where each property is a selector, instead received a ${typeof selectors}`
      )
    }
    const objectKeys = Object.keys(selectors)
    const resultSelector = selectorCreator(
      objectKeys.map(key => selectors[key]),
      (...values: any[]) => { ... }
    )
    return resultSelector
  })
  \<close>
\<close>

definition createStructuredSelector ::
  "'u jsarg \<Rightarrow> ('u jsarg list \<Rightarrow> exn + 'u outputSelector) \<Rightarrow> exn + 'u outputSelector" where
  "createStructuredSelector selectors selectorCreator =
     (if typeof selectors \<noteq> ''object''
      then Inl (Error (''createStructuredSelector expects first argument to be an object ''
                       @ ''where each property is a selector, instead received a ''
                       @ typeof selectors))
      else
        (case own_entries selectors of
           None \<Rightarrow> Inl (TypeError ''Cannot convert undefined or null to object'')
         | Some entries \<Rightarrow>
             let objectKeys = map fst entries in
             selectorCreator
               [AArr (map (\<lambda>key. property_of entries key) objectKeys),
                AFunc [] (structuredCombiner objectKeys)]))"

text \<open>Reading a property of a run-time value, as \<open>state.a\<close> does: \<open>undefined\<close> when the
  object has no such property, a \<open>TypeError\<close> on \<open>undefined\<close> and \<open>null\<close>.\<close>

fun get_property :: "val \<Rightarrow> string \<Rightarrow> exn + val" where
  "get_property (VObj ref props) key =
     Inr (case map_of props key of Some v \<Rightarrow> v | None \<Rightarrow> VUndefined)"
| "get_property VUndefined key = Inl (TypeError ''Cannot read properties of undefined'')"
| "get_property VNull key = Inl (TypeError ''Cannot read properties of null'')"
| "get_property other key = Inr VUndefined"

text \<open>A function of its arguments alone: it returns or throws, and leaves the world as it is.\<close>

definition pure_function :: "(val list \<Rightarrow> exn + val) \<Rightarrow> 'w jsfun" where
  "pure_function g args w = (g args, w)"

text \<open>\<open>state => state[key]\<close>\<close>

definition select_property :: "string \<Rightarrow> 'w jsfun" where
  "select_property key = pure_function (\<lambda>args. get_property (at_index args 0) key)"

text \<open>\<open>a => a\<close>\<close>

definition identity_function :: "'w jsfun" where
  "identity_function = pure_function (\<lambda>args. Inr (at_index args 0))"


section \<open>Notions for the properties of the stability check\<close>

text \<open>The input selectors that are functions of their arguments alone, run in order as
  \<open>apply_each\<close> runs them.\<close>

fun collect :: "(val list \<Rightarrow> exn + val) list \<Rightarrow> val list \<Rightarrow> exn + val list" where
  "collect [] args = Inr []"
| "collect (g # gs) args =
     (case g args of
        Inl e \<Rightarrow> Inl e
      | Inr v \<Rightarrow> (case collect gs args of Inl e \<Rightarrow> Inl e | Inr vs \<Rightarrow> Inr (v # vs)))"

text \<open>The variables of a selector that decide what its calls return: all but
  \<open>firstRun\<close> and the slot of \<open>makeAnObject\<close>, which only the stability check reads
  and writes.\<close>

definition core :: "selectorState \<Rightarrow> nat \<times> val \<times> slot \<times> slot" where
  "core st = (recomputations st, lastResultVar st, memoizedResultFunc_slot st, selector_slot st)"

text \<open>An input selector under observation: it counts its invocations in the user's part
  of the world and returns a value that depends on its arguments only.\<close>

definition ticking :: "(val list \<Rightarrow> val) \<Rightarrow> nat world jsfun" where
  "ticking g args w = (Inr (g args), w\<lparr>user := Suc (user w)\<rparr>)"

text \<open>Whether a call is answered from the slot of the selector itself, without running
  \<open>dependenciesChecker\<close>: the condition of \<open>internalMemoize\<close>.\<close>

definition answered_from_slot :: "val list \<Rightarrow> selectorState \<Rightarrow> bool" where
  "answered_from_slot args st =
     (lastArgs (selector_slot st) \<noteq> None
      \<and> argsEquals args (the (lastArgs (selector_slot st))) defaultValueEquals)"

text \<open>A selector that has not been called yet: the slot of the selector itself holds no
  arguments. Every call that is not answered from the slot stores its arguments there, and
  the first call of a selector is never answered from the slot.\<close>

definition never_called :: "selectorState \<Rightarrow> bool" where
  "never_called st = (lastArgs (selector_slot st) = None)"

text \<open>A value that a function builds from what it was given: values that exist already,
  and object literals, which get new references when the function runs. An object literal
  takes its reference first and then evaluates its properties in order.\<close>

datatype template = Old val | New "(string \<times> template) list"

fun instantiate :: "template \<Rightarrow> nat \<Rightarrow> val \<times> nat"
  and instantiate_entries ::
    "(string \<times> template) list \<Rightarrow> nat \<Rightarrow> (string \<times> val) list \<times> nat" where
  "instantiate (Old v) n = (v, n)"
| "instantiate (New entries) n =
     (case instantiate_entries entries (Suc n) of (props, n') \<Rightarrow> (VObj n props, n'))"
| "instantiate_entries [] n = ([], n)"
| "instantiate_entries (entry # entries) n =
     (case instantiate (snd entry) n of
        (v, n1) \<Rightarrow>
          (case instantiate_entries entries n1 of
             (props, n2) \<Rightarrow> ((fst entry, v) # props, n2)))"

text \<open>A function without side effects that may build its result: what it returns, or
  throws, depends on its arguments only, and the objects it creates take the next
  references of the world. It reads and writes nothing else. The functions of
  their arguments alone are the ones that build nothing, \<open>() => ({})\<close> builds
  \<open>New []\<close>, and the result function of \<open>createStructuredSelector\<close> builds one
  object around the values it is given.\<close>

definition building :: "(val list \<Rightarrow> exn + template) \<Rightarrow> 'u world jsfun" where
  "building h args w =
     (case h args of
        Inl e \<Rightarrow> (Inl e, w)
      | Inr t \<Rightarrow> (case instantiate t (nextRef w) of (v, n) \<Rightarrow> (Inr v, w\<lparr>nextRef := n\<rparr>)))"

text \<open>Such functions run in order, as \<open>apply_each\<close> runs them, from a given next
  reference.\<close>

fun build_each ::
  "(val list \<Rightarrow> exn + template) list \<Rightarrow> val list \<Rightarrow> nat \<Rightarrow> (exn + val list) \<times> nat" where
  "build_each [] args n = (Inr [], n)"
| "build_each (h # hs) args n =
     (case h args of
        Inl e \<Rightarrow> (Inl e, n)
      | Inr t \<Rightarrow>
          (case instantiate t n of
             (v, n1) \<Rightarrow>
               (case build_each hs args n1 of
                  (Inl e, n2) \<Rightarrow> (Inl e, n2)
                | (Inr vs, n2) \<Rightarrow> (Inr (v # vs), n2))))"

text \<open>For the selector of \<open>createStructuredSelector({x: ..., y: ...})\<close>: what the slot of
  its memoized result function holds, when it holds something, is an object with the
  properties \<open>x\<close> and \<open>y\<close> of the two values it was computed from.\<close>

definition xy_cached :: "selectorState \<Rightarrow> bool" where
  "xy_cached st =
     (case lastArgs (memoizedResultFunc_slot st) of
        None \<Rightarrow> True
      | Some ps \<Rightarrow>
          length ps = 2 \<and>
          (case lastResult (memoizedResultFunc_slot st) of
             VObj ref props \<Rightarrow> props = [(''x'', ps ! 0), (''y'', ps ! 1)]
           | other \<Rightarrow> False))"

text \<open>For the same selector: what its own slot holds agrees with the slot of its memoized
  result function. When the two selectors return on the arguments that the selector's slot
  holds, the result that slot holds is the one the result function's slot holds, and that
  one was computed from, or found for, the values the two selectors return on them.\<close>

definition xy_consistent ::
  "(val list \<Rightarrow> exn + val) \<Rightarrow> (val list \<Rightarrow> exn + val) \<Rightarrow> selectorState \<Rightarrow> bool" where
  "xy_consistent sel1 sel2 st =
     (case lastArgs (selector_slot st) of
        None \<Rightarrow> True
      | Some stored \<Rightarrow>
          (case collect [sel1, sel2] stored of
             Inl e \<Rightarrow> True
           | Inr vs \<Rightarrow>
               (case lastArgs (memoizedResultFunc_slot st) of
                  None \<Rightarrow> False
                | Some ps \<Rightarrow>
                    lastResult (selector_slot st) = lastResult (memoizedResultFunc_slot st)
                    \<and> list_all2 (\<lambda>v p. strict_eq v p \<or> v = p) vs ps)))"

text \<open>What \<open>createStructuredSelector({x: sel1, y: sel2})\<close> returns, for two selectors
  that are functions of their arguments alone.\<close>

definition xy_selector ::
  "(val list \<Rightarrow> exn + val) \<Rightarrow> (val list \<Rightarrow> exn + val) \<Rightarrow> 'u outputSelector" where
  "xy_selector sel1 sel2 =
     \<lparr>the_resultFunc = structuredCombiner [''x'', ''y''],
      the_dependencies = [pure_function sel1, pure_function sel2], finalMemoizeOptions = [],
      the_inputStabilityCheck = None,
      properties = assigned_properties (structuredCombiner [''x'', ''y''])
                     [pure_function sel1, pure_function sel2] []\<rparr>"


section \<open>Concrete functions for the instances\<close>

text \<open>\<open>(...args) => args.length\<close>, on a world with nothing in it.\<close>

definition arguments_length :: "unit jsfun" where
  "arguments_length args w = (Inr (VNum (int (length args))), w)"

text \<open>\<open>() => { throw 'boom' }\<close>.\<close>

definition always_throws :: "unit jsfun" where
  "always_throws args w = (Inl (Thrown (VStr ''boom'')), w)"

text \<open>\<open>() => ({})\<close>: an input selector that returns a new reference each time.\<close>

definition fresh_object :: "'u world jsfun" where
  "fresh_object args w = (case new_object [] w of (obj, w') \<Rightarrow> (Inr obj, w'))"

text \<open>\<open>(...args) => args[0]\<close>, counting its invocations.\<close>

definition ticking_first :: "nat world jsfun" where
  "ticking_first = ticking (\<lambda>args. at_index args 0)"

text \<open>\<open>createSelector((...args) => args[0], a => a)\<close> with the counting input selector:
  what \<open>createSelector\<close> returns for it.\<close>

definition probe_selector :: "nat outputSelector" where
  "probe_selector =
     \<lparr>the_resultFunc = identity_function, the_dependencies = [ticking_first],
      finalMemoizeOptions = [], the_inputStabilityCheck = None,
      properties = assigned_properties identity_function [ticking_first] []\<rparr>"

text \<open>One more call, after the outcome of a call.\<close>

definition then_call ::
  "'u outputSelector \<Rightarrow> val list \<Rightarrow> (exn + val) \<times> selectorState \<times> 'u world
     \<Rightarrow> (exn + val) \<times> selectorState \<times> 'u world" where
  "then_call sel args outcome = call_selector sel args (fst (snd outcome)) (snd (snd outcome))"

text \<open>How often the counting input selector has run.\<close>

definition invocations :: "(exn + val) \<times> selectorState \<times> nat world \<Rightarrow> nat" where
  "invocations outcome = user (snd (snd outcome))"

text \<open>\<open>createSelector(() => ({}), a => a)\<close>: what \<open>createSelector\<close> returns for it.\<close>

definition unstable_selector :: "unit outputSelector" where
  "unstable_selector =
     \<lparr>the_resultFunc = identity_function, the_dependencies = [fresh_object],
      finalMemoizeOptions = [], the_inputStabilityCheck = None,
      properties = assigned_properties identity_function [fresh_object] []\<rparr>"

text \<open>\<open>createStructuredSelector({x: () => ({})})\<close>: what it returns. The input
  selector returns a new reference each time, and the result function builds its result.\<close>

definition fresh_x_selector :: "unit outputSelector" where
  "fresh_x_selector =
     \<lparr>the_resultFunc = structuredCombiner [''x''], the_dependencies = [fresh_object],
      finalMemoizeOptions = [], the_inputStabilityCheck = None,
      properties = assigned_properties (structuredCombiner [''x'']) [fresh_object] []\<rparr>"




section \<open>Properties of the single-slot memoizer\<close>

lemma every_from_iff:
  "every_from i p xs \<longleftrightarrow> (\<forall>k < length xs. p (xs ! k) (i + k))"
proof (induction xs arbitrary: i)
  case Nil
  show ?case by simp
next
  case (Cons x xs)
  show ?case
    by (simp add: Cons.IH All_less_Suc2)
qed

lemma argsEquals_iff:
  "argsEquals a b valueEquals \<longleftrightarrow> (\<forall>k < length a. valueEquals (a ! k) (at_index b k))"
  by (simp add: argsEquals_def every_def every_from_iff)

lemma pairwise_equal_argsEquals:
  assumes "pairwise_equal valueEquals a b"
  shows "argsEquals a b valueEquals"
  using assms
  by (simp add: pairwise_equal_def argsEquals_iff at_index_def list_all2_conv_all_nth)

lemma internalMemoize_hit:
  assumes "lastArgs c = Some b" and "argsEquals a b valueEquals"
  shows "internalMemoize func valueEquals a c w = (Inr (lastResult c), c, w)"
  using assms by (simp add: internalMemoize_def)

lemma internalMemoize_miss:
  assumes "lastArgs c = None \<or> \<not> argsEquals a (the (lastArgs c)) valueEquals"
  shows "internalMemoize func valueEquals a c w =
           (case func a w of
              (Inl e, w') \<Rightarrow> (Inl e, c\<lparr>lastArgs := Some a\<rparr>, w')
            | (Inr v, w') \<Rightarrow> (Inr v, c\<lparr>lastArgs := Some a, lastResult := v\<rparr>, w'))"
  using assms by (auto simp add: internalMemoize_def Let_def)

text \<open>
  Claim C2. A memoized function fresh from \<open>memoize\<close> is called with a tuple \<open>X\<close> and
  then with a tuple \<open>X'\<close> pairwise equal to it. Whatever the wrapped function is, it has
  been invoked exactly once after the two calls (the counter goes from \<open>n\<close> to
  \<open>Suc n\<close>), the result and the effect of the first call are those of that one
  invocation on \<open>X\<close>, and the second call returns the stored result and leaves the slot,
  the counter and the world as they were.
\<close>

theorem memoize_twice_invokes_once:
  fixes func :: "'w jsfun"
  assumes "pairwise_equal (case valueEquals of None \<Rightarrow> defaultValueEquals | Some eq \<Rightarrow> eq) X' X"
  shows "case memoize (counted func) valueEquals X new_slot (n, w) of (r1, c1, cw1) \<Rightarrow>
           (case memoize (counted func) valueEquals X' c1 cw1 of (r2, c2, cw2) \<Rightarrow>
              fst cw2 = Suc n \<and> (r1, snd cw1) = func X w
              \<and> r2 = Inr (lastResult c1) \<and> (\<forall>v. r1 = Inr v \<longrightarrow> r2 = Inr v)
              \<and> c2 = c1 \<and> cw2 = cw1)"
proof -
  obtain r w' where f: "func X w = (r, w')" by (cases "func X w")
  define c1 where "c1 = (case r of Inl e \<Rightarrow> new_slot\<lparr>lastArgs := Some X\<rparr>
                          | Inr v \<Rightarrow> new_slot\<lparr>lastArgs := Some X, lastResult := v\<rparr>)"
  have first: "memoize (counted func) valueEquals X new_slot (n, w) = (r, c1, (Suc n, w'))"
    using f by (cases r) (simp_all add: memoize_def internalMemoize_miss new_slot_def counted_def c1_def)
  have la: "lastArgs c1 = Some X"
    by (cases r) (simp_all add: c1_def)
  have second: "memoize (counted func) valueEquals X' c1 (Suc n, w') = (Inr (lastResult c1), c1, (Suc n, w'))"
    unfolding memoize_def
    by (rule internalMemoize_hit [OF la pairwise_equal_argsEquals [OF assms]])
  have res: "\<forall>v. r = Inr v \<longrightarrow> lastResult c1 = v"
    by (simp add: c1_def)
  show ?thesis
    using res by (simp add: first second f)
qed

theorem memoize_twice_invokes_once_witness:
  "pairwise_equal defaultValueEquals
     [VStr ''k'', VObj 7 [(''a'', VNum 1)]] [VStr ''k'', VObj 7 [(''a'', VNum 1)]]
   \<and> memoize (counted arguments_length) None [VStr ''k'', VObj 7 [(''a'', VNum 1)]] new_slot (0, ())
       = (Inr (VNum 2),
          \<lparr>lastArgs = Some [VStr ''k'', VObj 7 [(''a'', VNum 1)]], lastResult = VNum 2\<rparr>, 1, ())
   \<and> memoize (counted arguments_length) None [VStr ''k'', VObj 7 [(''a'', VNum 1)]]
         \<lparr>lastArgs = Some [VStr ''k'', VObj 7 [(''a'', VNum 1)]], lastResult = VNum 2\<rparr> (1, ())
       = (Inr (VNum 2),
          \<lparr>lastArgs = Some [VStr ''k'', VObj 7 [(''a'', VNum 1)]], lastResult = VNum 2\<rparr>, 1, ())"
proof -
  have h: "pairwise_equal (case None of None \<Rightarrow> defaultValueEquals | Some eq \<Rightarrow> eq)
             [VStr ''k'', VObj 7 [(''a'', VNum 1)]] [VStr ''k'', VObj 7 [(''a'', VNum 1)]]"
    by (simp add: pairwise_equal_def defaultValueEquals_def)
  have first: "memoize (counted arguments_length) None [VStr ''k'', VObj 7 [(''a'', VNum 1)]] new_slot (0, ())
       = (Inr (VNum 2),
          \<lparr>lastArgs = Some [VStr ''k'', VObj 7 [(''a'', VNum 1)]], lastResult = VNum 2\<rparr>, 1, ())"
    by (simp add: memoize_def internalMemoize_def new_slot_def counted_def arguments_length_def)
  show ?thesis
    using h first
      memoize_twice_invokes_once [OF h, where func = arguments_length and n = 0 and w = "()"]
    by (auto split: prod.splits)
qed

text \<open>
  Claim C10. \<open>lastArgs\<close> is assigned before the wrapped function runs. So when a call
  misses the cache and the wrapped function throws on it, the call raises, the slot keeps
  the new arguments and the old result, and the next call with a pairwise-equal tuple
  returns that old result (\<open>null\<close> when the slot was new) without invoking the wrapped
  function (the counter stays at \<open>Suc n\<close>) and without raising.
\<close>

theorem throw_then_stale_result:
  fixes func :: "'w jsfun"
  assumes throws: "func X w = (Inl e, w')"
      and miss: "lastArgs c = None \<or> \<not> argsEquals X (the (lastArgs c)) valueEquals"
      and again: "pairwise_equal valueEquals X' X"
  shows "internalMemoize (counted func) valueEquals X c (n, w)
           = (Inl e, c\<lparr>lastArgs := Some X\<rparr>, Suc n, w')
         \<and> internalMemoize (counted func) valueEquals X' (c\<lparr>lastArgs := Some X\<rparr>) (Suc n, w')
           = (Inr (lastResult c), c\<lparr>lastArgs := Some X\<rparr>, Suc n, w')
         \<and> (c = new_slot \<longrightarrow> lastResult c = VNull)"
proof -
  have "internalMemoize (counted func) valueEquals X c (n, w)
           = (Inl e, c\<lparr>lastArgs := Some X\<rparr>, Suc n, w')"
    using throws by (simp add: internalMemoize_miss [OF miss] counted_def)
  moreover have "internalMemoize (counted func) valueEquals X' (c\<lparr>lastArgs := Some X\<rparr>) (Suc n, w')
           = (Inr (lastResult c), c\<lparr>lastArgs := Some X\<rparr>, Suc n, w')"
    using internalMemoize_hit [of "c\<lparr>lastArgs := Some X\<rparr>" X X' valueEquals,
        OF _ pairwise_equal_argsEquals [OF again]]
    by simp
  ultimately show ?thesis by (simp add: new_slot_def)
qed

theorem throw_then_stale_result_witness:
  "always_throws [VNum 1] () = (Inl (Thrown (VStr ''boom'')), ())
   \<and> lastArgs new_slot = None
   \<and> pairwise_equal defaultValueEquals [VNum 1] [VNum 1]
   \<and> internalMemoize (counted always_throws) defaultValueEquals [VNum 1] new_slot (0, ())
       = (Inl (Thrown (VStr ''boom'')), \<lparr>lastArgs = Some [VNum 1], lastResult = VNull\<rparr>, 1, ())
   \<and> internalMemoize (counted always_throws) defaultValueEquals [VNum 1]
         \<lparr>lastArgs = Some [VNum 1], lastResult = VNull\<rparr> (1, ())
       = (Inr VNull, \<lparr>lastArgs = Some [VNum 1], lastResult = VNull\<rparr>, 1, ())"
proof -
  have t: "always_throws [VNum 1] () = (Inl (Thrown (VStr ''boom'')), ())"
    by (simp add: always_throws_def)
  have m: "lastArgs new_slot = None
           \<or> \<not> argsEquals [VNum 1] (the (lastArgs new_slot)) defaultValueEquals"
    by (simp add: new_slot_def)
  have p: "pairwise_equal defaultValueEquals [VNum 1] [VNum 1]"
    by (simp add: pairwise_equal_def defaultValueEquals_def)
  show ?thesis
    using t p
      throw_then_stale_result [where func = always_throws and X = "[VNum 1]" and w = "()"
        and e = "Thrown (VStr ''boom'')" and w' = "()" and c = new_slot
        and valueEquals = defaultValueEquals and X' = "[VNum 1]" and n = 0, OF t m p]
    by (simp add: new_slot_def)
qed

text \<open>
  Claim C3 on the code. The comment above \<open>internalMemoize\<close> wants recalculation if
  and only if the arguments are different, and \<open>argsEquals\<close> is there to tell; but it
  walks the incoming tuple only and reads the cached one by index, so it never looks at the
  lengths. After \<open>memoized(1)\<close>, the call \<open>memoized()\<close> finds its empty tuple equal
  to the cached \<open>(1)\<close>, and \<open>memoized(1, undefined)\<close> finds its surplus
  \<open>undefined\<close> equal, by \<open>===\<close>, to the \<open>undefined\<close> read past the end of the
  cached tuple. Both calls return the 1 stored for \<open>(1)\<close> without invoking the wrapped
  function, which returns the number of its arguments: 0 and 2.
\<close>

theorem different_lengths_judged_equal:
  "length ([] :: val list) \<noteq> length [VNum 1]
   \<and> argsEquals [] [VNum 1] defaultValueEquals
   \<and> length [VNum 1, VUndefined] \<noteq> length [VNum 1]
   \<and> argsEquals [VNum 1, VUndefined] [VNum 1] defaultValueEquals
   \<and> memoize (counted arguments_length) None [VNum 1] new_slot (0, ())
       = (Inr (VNum 1), \<lparr>lastArgs = Some [VNum 1], lastResult = VNum 1\<rparr>, 1, ())
   \<and> memoize (counted arguments_length) None []
         \<lparr>lastArgs = Some [VNum 1], lastResult = VNum 1\<rparr> (1, ())
       = (Inr (VNum 1), \<lparr>lastArgs = Some [VNum 1], lastResult = VNum 1\<rparr>, 1, ())
   \<and> arguments_length [] () = (Inr (VNum 0), ())
   \<and> memoize (counted arguments_length) None [VNum 1, VUndefined]
         \<lparr>lastArgs = Some [VNum 1], lastResult = VNum 1\<rparr> (1, ())
       = (Inr (VNum 1), \<lparr>lastArgs = Some [VNum 1], lastResult = VNum 1\<rparr>, 1, ())
   \<and> arguments_length [VNum 1, VUndefined] () = (Inr (VNum 2), ())"
  by (simp add: memoize_def internalMemoize_def argsEquals_def every_def at_index_def
      defaultValueEquals_def new_slot_def counted_def arguments_length_def)


section \<open>Composition: validation and the surface of the selector\<close>

lemma as_function_None_iff: "as_function a = None \<longleftrightarrow> typeof a \<noteq> ''function''"
  by (cases a) simp_all

lemma every_iff_list_all: "every (\<lambda>x index. P x) xs \<longleftrightarrow> list_all P xs"
  by (simp add: every_def every_from_iff list_all_length)

lemma dependencyType_not_function:
  "typeof dep \<noteq> ''function'' \<Longrightarrow> dependencyType dep = typeof dep"
  by (cases dep) simp_all

lemma getDependencies_error:
  assumes "\<exists>dep \<in> set (dependencies_of funcs). typeof dep \<noteq> ''function''"
  shows "getDependencies funcs =
           Inl (Error (''createSelector expects all input-selectors to be functions, but received the following types: [''
                       @ join '', '' (map dependencyType (dependencies_of funcs)) @ '']''))"
  using assms by (auto simp add: getDependencies_def every_iff_list_all list_all_iff)

lemma map_filter_as_function:
  assumes "list_all (\<lambda>dep. typeof dep = ''function'') deps"
  shows "list_all2 (\<lambda>dep f. as_function dep = Some f) deps (List.map_filter as_function deps)"
  using assms
proof (induction deps)
  case Nil
  show ?case by (simp add: List.map_filter_simps)
next
  case (Cons dep deps)
  then obtain name f where "dep = AFunc name f"
    by (cases dep) simp_all
  with Cons show ?case by (simp add: List.map_filter_simps)
qed

lemma getDependencies_ok:
  assumes "getDependencies funcs = Inr deps"
  shows "list_all2 (\<lambda>dep f. as_function dep = Some f) (dependencies_of funcs) deps"
  using assms map_filter_as_function [of "dependencies_of funcs"]
  by (auto simp add: getDependencies_def every_iff_list_all Let_def split: if_splits)

text \<open>
  What the validation of \<open>createSelector\<close> does, when it is called and before any
  selector exists. When what it takes for the result function is not a function, it throws
  an \<open>Error\<close> whose message carries the \<open>typeof\<close> of that argument. When the result
  function is a function, the options are not \<open>null\<close> and one of the input selectors is
  not a function, it throws an \<open>Error\<close> whose message lists, in order, the type of every
  input selector: the plain \<open>typeof\<close> for those that are not functions. In every case
  where an input selector or the result function is not a function, no selector is
  returned; and a selector that is returned has a function for its result function and for
  each of its dependencies, so nothing is left to be found out at call time.
\<close>

lemma createSelector_validation:
  fixes funcs :: "'u jsarg list"
  assumes "take_resultFunc funcs = (options, resultFunc, inputs)"
  shows "(typeof resultFunc \<noteq> ''function'' \<longrightarrow>
            createSelectorCreator memoizeOptionsFromArgs funcs =
              Inl (Error (''createSelector expects an output function after the inputs, but received: [''
                          @ typeof resultFunc @ '']'')))
       \<and> (typeof resultFunc = ''function'' \<and> options \<noteq> ANull
            \<and> (\<exists>dep \<in> set (dependencies_of inputs). typeof dep \<noteq> ''function'') \<longrightarrow>
            createSelectorCreator memoizeOptionsFromArgs funcs =
              Inl (Error (''createSelector expects all input-selectors to be functions, but received the following types: [''
                          @ join '', '' (map dependencyType (dependencies_of inputs)) @ '']'')))
       \<and> (\<forall>dep :: 'u jsarg. typeof dep \<noteq> ''function'' \<longrightarrow> dependencyType dep = typeof dep)
       \<and> (typeof resultFunc \<noteq> ''function''
            \<or> (\<exists>dep \<in> set (dependencies_of inputs). typeof dep \<noteq> ''function'') \<longrightarrow>
            isl (createSelectorCreator memoizeOptionsFromArgs funcs))
       \<and> (\<forall>sel. createSelectorCreator memoizeOptionsFromArgs funcs = Inr sel \<longrightarrow>
            as_function resultFunc = Some (the_resultFunc sel)
            \<and> list_all2 (\<lambda>dep f. as_function dep = Some f) (dependencies_of inputs) (the_dependencies sel))"
proof (intro conjI impI allI)
  assume "typeof resultFunc \<noteq> ''function''"
  then have "as_function resultFunc = None" by (simp add: as_function_None_iff)
  then show "createSelectorCreator memoizeOptionsFromArgs funcs =
              Inl (Error (''createSelector expects an output function after the inputs, but received: [''
                          @ typeof resultFunc @ '']''))"
    by (simp add: createSelectorCreator_def assms)
next
  assume a: "typeof resultFunc = ''function'' \<and> options \<noteq> ANull
            \<and> (\<exists>dep \<in> set (dependencies_of inputs). typeof dep \<noteq> ''function'')"
  then obtain f where f: "as_function resultFunc = Some f"
    using as_function_None_iff [of resultFunc] by (cases "as_function resultFunc") auto
  from a obtain opts where o: "read_options options = Some opts"
    by (cases options) simp_all
  from a have g: "getDependencies inputs =
           Inl (Error (''createSelector expects all input-selectors to be functions, but received the following types: [''
                       @ join '', '' (map dependencyType (dependencies_of inputs)) @ '']''))"
    by (intro getDependencies_error) simp
  show "createSelectorCreator memoizeOptionsFromArgs funcs =
              Inl (Error (''createSelector expects all input-selectors to be functions, but received the following types: [''
                          @ join '', '' (map dependencyType (dependencies_of inputs)) @ '']''))"
    by (simp add: createSelectorCreator_def assms f o g Let_def)
next
  fix dep :: "'u jsarg"
  assume "typeof dep \<noteq> ''function''"
  then show "dependencyType dep = typeof dep" by (rule dependencyType_not_function)
next
  assume a: "typeof resultFunc \<noteq> ''function''
            \<or> (\<exists>dep \<in> set (dependencies_of inputs). typeof dep \<noteq> ''function'')"
  show "isl (createSelectorCreator memoizeOptionsFromArgs funcs)"
  proof (cases "as_function resultFunc")
    case None
    then show ?thesis by (simp add: createSelectorCreator_def assms)
  next
    case (Some f)
    then have "typeof resultFunc = ''function''"
      using as_function_None_iff [of resultFunc] by auto
    with a have "\<exists>dep \<in> set (dependencies_of inputs). typeof dep \<noteq> ''function''" by simp
    then have g: "isl (getDependencies inputs)"
      by (simp add: getDependencies_error)
    then show ?thesis
      by (auto simp add: createSelectorCreator_def assms Some Let_def isl_def
          split: option.splits sum.splits)
  qed
next
  fix sel
  assume s: "createSelectorCreator memoizeOptionsFromArgs funcs = Inr sel"
  then show "as_function resultFunc = Some (the_resultFunc sel)"
    by (auto simp add: createSelectorCreator_def assms Let_def split: option.splits sum.splits)
next
  fix sel
  assume s: "createSelectorCreator memoizeOptionsFromArgs funcs = Inr sel"
  then obtain deps where "getDependencies inputs = Inr deps" "the_dependencies sel = deps"
    by (auto simp add: createSelectorCreator_def assms Let_def split: option.splits sum.splits)
  then show "list_all2 (\<lambda>dep f. as_function dep = Some f) (dependencies_of inputs) (the_dependencies sel)"
    using getDependencies_ok by blast
qed


lemma createSelector_validation_instance:
  "take_resultFunc [ANum 3, AFunc ''f'' identity_function, AFunc [] identity_function]
     = (AOptions no_options, AFunc [] identity_function,
        [ANum 3, AFunc ''f'' (identity_function :: unit world jsfun)])
   \<and> typeof (AFunc [] (identity_function :: unit world jsfun)) = ''function''
   \<and> typeof (ANum 3 :: unit jsarg) \<noteq> ''function''
   \<and> (createSelector [ANum 3, AFunc ''f'' identity_function, AFunc [] identity_function]
         :: exn + unit outputSelector)
       = Inl (Error ''createSelector expects all input-selectors to be functions, but received the following types: [number, function f()]'')
   \<and> take_resultFunc [AFunc ''f'' identity_function, AStr ''x'']
     = (AOptions no_options, AStr ''x'', [AFunc ''f'' (identity_function :: unit world jsfun)])
   \<and> (createSelector [AFunc ''f'' identity_function, AStr ''x''] :: exn + unit outputSelector)
       = Inl (Error ''createSelector expects an output function after the inputs, but received: [string]'')"
proof -
  have t1: "take_resultFunc [ANum 3, AFunc ''f'' identity_function, AFunc [] identity_function]
     = (AOptions no_options, AFunc [] identity_function,
        [ANum 3, AFunc ''f'' (identity_function :: unit world jsfun)])"
    by (simp add: take_resultFunc_def pop_def)
  have t2: "take_resultFunc [AFunc ''f'' identity_function, AStr ''x'']
     = (AOptions no_options, AStr ''x'', [AFunc ''f'' (identity_function :: unit world jsfun)])"
    by (simp add: take_resultFunc_def pop_def)
  show ?thesis
    using t1 t2
      createSelector_validation [OF t1, where memoizeOptionsFromArgs = "[]"]
      createSelector_validation [OF t2, where memoizeOptionsFromArgs = "[]"]
    by (simp add: createSelector_def dependencies_of_def)
qed

text \<open>
  Claim C5 on the code. \<open>null\<close> in the last place is not a function, so no result
  function is supplied by \<open>createSelector(sel, null)\<close>. But \<open>typeof null\<close> is
  \<open>'object'\<close>: \<open>null\<close> is taken for the options object and the input selector for
  the result function, the check of the result function passes, and reading the options
  off \<open>null\<close> throws the engine's \<open>TypeError\<close>, which names no received type. The
  same happens before the input selectors are looked at: \<open>createSelector(42, f, null)\<close>
  throws that \<open>TypeError\<close>, not the \<open>Error\<close> that lists \<open>number\<close>.
\<close>

theorem createSelector_null_last:
  "createSelector [AFunc name sel, ANull]
     = Inl (TypeError ''Cannot destructure 'directlyPassedOptions' as it is null.'')
   \<and> createSelector [ANum 42, AFunc name f, ANull]
     = Inl (TypeError ''Cannot destructure 'directlyPassedOptions' as it is null.'')"
  by (simp add: createSelector_def createSelectorCreator_def take_resultFunc_def pop_def)

text \<open>
  Claim C4, as stated, fails: \<open>Object.assign\<close> gives the selector six properties, and
  \<open>dependencyRecomputations\<close> and \<open>resetDependencyRecomputations\<close> are not among
  them. Nothing in the selector counts the runs of the input selectors.
\<close>

theorem no_dependencyRecomputations:
  "map_sum id (map fst \<circ> properties)
     (createSelector [AFunc [] (select_property ''a''), AFunc [] identity_function]
        :: exn + unit outputSelector)
     = Inr [''resultFunc'', ''memoizedResultFunc'', ''dependencies'', ''lastResult'',
            ''recomputations'', ''resetRecomputations'']
   \<and> map_sum id (property_named ''dependencyRecomputations'')
     (createSelector [AFunc [] (select_property ''a''), AFunc [] identity_function]
        :: exn + unit outputSelector)
     = Inr None
   \<and> map_sum id (property_named ''resetDependencyRecomputations'')
     (createSelector [AFunc [] (select_property ''a''), AFunc [] identity_function]
        :: exn + unit outputSelector)
     = Inr None"
  by (simp add: createSelector_def createSelectorCreator_def take_resultFunc_def pop_def
      no_options_def getDependencies_def dependencies_of_def every_def property_named_def
      List.map_filter_simps assigned_properties_def Let_def)

text \<open>
  Claim C4, amended. Every output selector that \<open>createSelector\<close> returns has exactly the
  properties \<open>resultFunc\<close>, \<open>memoizedResultFunc\<close>, \<open>dependencies\<close>,
  \<open>lastResult\<close>, \<open>recomputations\<close> and \<open>resetRecomputations\<close>.
  \<open>resultFunc\<close> is the function that was passed as the result function, as it is;
  \<open>dependencies\<close> is the sequence of the input selectors, in their order;
  \<open>memoizedResultFunc\<close> is the memoized result function that the selector itself
  calls; \<open>lastResult()\<close> returns the last result, \<open>recomputations()\<close> the counter, and
  \<open>resetRecomputations()\<close> sets the counter to 0.
\<close>

theorem selector_surface:
  fixes funcs :: "'u jsarg list"
  assumes made: "createSelectorCreator memoizeOptionsFromArgs funcs = Inr sel"
      and taken: "take_resultFunc funcs = (options, resultFunc, inputs)"
  shows "map fst (properties sel)
           = [''resultFunc'', ''memoizedResultFunc'', ''dependencies'', ''lastResult'',
              ''recomputations'', ''resetRecomputations'']
       \<and> as_function resultFunc = Some (the_resultFunc sel)
       \<and> property_named ''resultFunc'' sel = Some (PFunction (the_resultFunc sel))
       \<and> list_all2 (\<lambda>dep f. as_function dep = Some f) (dependencies_of inputs) (the_dependencies sel)
       \<and> property_named ''dependencies'' sel = Some (PArray (the_dependencies sel))
       \<and> property_named ''memoizedResultFunc'' sel
           = Some (PClosure (memoizedResultFunc (the_resultFunc sel) (finalMemoizeOptions sel)))
       \<and> property_named ''lastResult'' sel = Some (PClosure lastResult_method)
       \<and> property_named ''recomputations'' sel = Some (PClosure recomputations_method)
       \<and> property_named ''resetRecomputations'' sel = Some (PClosure resetRecomputations_method)
       \<and> (lastResult_method :: 'u closure) args st w = (Inr (lastResultVar st), st, w)
       \<and> (recomputations_method :: 'u closure) args st w
           = (Inr (VNum (int (recomputations st))), st, w)
       \<and> (resetRecomputations_method :: 'u closure) args st w
           = (Inr (VNum 0), st\<lparr>recomputations := 0\<rparr>, w)"
proof -
  from made taken obtain opts deps
    where rf: "as_function resultFunc = Some (the_resultFunc sel)"
      and gd: "getDependencies inputs = Inr deps"
      and d: "the_dependencies sel = deps"
      and p: "properties sel
                = assigned_properties (the_resultFunc sel) deps (finalMemoizeOptions sel)"
    by (auto simp add: createSelectorCreator_def Let_def split: option.splits sum.splits)
  have l: "list_all2 (\<lambda>dep f. as_function dep = Some f) (dependencies_of inputs) (the_dependencies sel)"
    using getDependencies_ok [OF gd] d by simp
  show ?thesis
    using rf l
    by (simp add: p d assigned_properties_def lastResult_method_def recomputations_method_def
        resetRecomputations_method_def property_named_def)
qed

theorem selector_surface_witness:
  "(createSelector [AFunc ''f'' (select_property ''a''), AFunc ''g'' identity_function]
      :: exn + unit outputSelector)
     = Inr \<lparr>the_resultFunc = identity_function,
            the_dependencies = [select_property ''a''],
            finalMemoizeOptions = [],
            the_inputStabilityCheck = None,
            properties = assigned_properties identity_function [select_property ''a''] []\<rparr>
   \<and> take_resultFunc [AFunc ''f'' (select_property ''a''), AFunc ''g'' identity_function]
     = (AOptions no_options, AFunc ''g'' identity_function,
        [AFunc ''f'' (select_property ''a'' :: unit world jsfun)])
   \<and> map fst (assigned_properties (identity_function :: unit world jsfun) [select_property ''a''] [])
       = [''resultFunc'', ''memoizedResultFunc'', ''dependencies'', ''lastResult'',
          ''recomputations'', ''resetRecomputations'']"
proof -
  have m: "createSelectorCreator []
             [AFunc ''f'' (select_property ''a''), AFunc ''g'' identity_function]
     = Inr \<lparr>the_resultFunc = (identity_function :: unit world jsfun),
            the_dependencies = [select_property ''a''],
            finalMemoizeOptions = [],
            the_inputStabilityCheck = None,
            properties = assigned_properties identity_function [select_property ''a''] []\<rparr>"
    by (simp add: createSelectorCreator_def take_resultFunc_def pop_def
        no_options_def getDependencies_def dependencies_of_def every_def
        List.map_filter_simps Let_def)
  have t: "take_resultFunc [AFunc ''f'' (select_property ''a''), AFunc ''g'' identity_function]
     = (AOptions no_options, AFunc ''g'' identity_function,
        [AFunc ''f'' (select_property ''a'' :: unit world jsfun)])"
    by (simp add: take_resultFunc_def pop_def)
  show ?thesis
    using m t selector_surface [OF m t]
    by (simp add: createSelector_def)
qed

lemma createStructuredSelector_not_object:
  assumes "typeof selectors \<noteq> ''object''"
  shows "createStructuredSelector selectors selectorCreator =
           Inl (Error (''createStructuredSelector expects first argument to be an object ''
                       @ ''where each property is a selector, instead received a ''
                       @ typeof selectors))"
  using assms by (simp add: createStructuredSelector_def)

text \<open>
  Claim C6 on the code. An argument whose \<open>typeof\<close> is not \<open>'object'\<close> is turned away
  with an \<open>Error\<close> that names that type. \<open>null\<close> is not an object of named selectors,
  but its \<open>typeof\<close> is \<open>'object'\<close>: it passes the check, and what is thrown is the
  \<open>TypeError\<close> of \<open>Object.keys(null)\<close>, which names no type.
\<close>

theorem createStructuredSelector_null:
  "createStructuredSelector ANull selectorCreator
     = Inl (TypeError ''Cannot convert undefined or null to object'')"
  by (simp add: createStructuredSelector_def)


section \<open>The output selector at work\<close>

lemma createSelector_basic:
  "createSelector [AFunc n1 f, AFunc n2 g]
     = Inr \<lparr>the_resultFunc = g, the_dependencies = [f], finalMemoizeOptions = [],
            the_inputStabilityCheck = None, properties = assigned_properties g [f] []\<rparr>"
  by (simp add: createSelector_def createSelectorCreator_def take_resultFunc_def pop_def
        no_options_def getDependencies_def dependencies_of_def every_def
        List.map_filter_simps Let_def)

text \<open>
  Claim C1. The selector is \<open>createSelector(state => state.a, a => a)\<close>. It is called
  with three state objects of different references, \<open>{a: 1}\<close>, \<open>{a: 1}\<close> and
  \<open>{a: 2}\<close>, from whatever world (any global setting of the stability check, production
  or not). The calls return 1, 1 and 2; \<open>recomputations()\<close> is 1 after the second call
  and 2 after the third.
\<close>

theorem scenario_A:
  fixes w :: "'u world"
  assumes "distinct [i, j, k]"
  shows "case createSelector [AFunc [] (select_property ''a''), AFunc [] identity_function] of
      Inl e \<Rightarrow> False
    | Inr selector \<Rightarrow>
        (case call_selector selector [VObj i [(''a'', VNum 1)]] new_selectorState w of
           (r1, s1, w1) \<Rightarrow>
        (case call_selector selector [VObj j [(''a'', VNum 1)]] s1 w1 of
           (r2, s2, w2) \<Rightarrow>
        (case call_selector selector [VObj k [(''a'', VNum 2)]] s2 w2 of
           (r3, s3, w3) \<Rightarrow>
             r1 = Inr (VNum 1) \<and> r2 = Inr (VNum 1)
             \<and> fst (recomputations_method [] s2 w2) = Inr (VNum 1)
             \<and> r3 = Inr (VNum 2)
             \<and> fst (recomputations_method [] s3 w3) = Inr (VNum 2))))"
  using assms
  apply (simp add: createSelector_basic)
  apply (cases "production w"; cases "globalStabilityCheck w")
  apply (simp_all add: call_selector_def memoize_def internalMemoize_def dependenciesChecker_def
      stabilityCheckDue_def finalStabilityCheck_def inputStabilityCheckBody_def
      inputStabilityCheckStatement_def compute_result_def makeAnObject_def
      memoizedResultFunc_def recomputationWrapper_def first_option_def new_selectorState_def
      new_slot_def select_property_def identity_function_def pure_function_def at_index_def
      argsEquals_def every_def defaultValueEquals_def new_object_def console_warn_def
      recomputations_method_def Let_def)
  done

theorem scenario_A_witness:
  "distinct [1, 2, 3 :: nat]
   \<and> (case createSelector [AFunc [] (select_property ''a''), AFunc [] identity_function] of
      Inl e \<Rightarrow> False
    | Inr selector \<Rightarrow>
        (case call_selector selector [VObj 1 [(''a'', VNum 1)]] new_selectorState (initial_world ()) of
           (r1, s1, w1) \<Rightarrow>
        (case call_selector selector [VObj 2 [(''a'', VNum 1)]] s1 w1 of
           (r2, s2, w2) \<Rightarrow>
        (case call_selector selector [VObj 3 [(''a'', VNum 2)]] s2 w2 of
           (r3, s3, w3) \<Rightarrow>
             r1 = Inr (VNum 1) \<and> r2 = Inr (VNum 1) \<and> recomputations s2 = 1
             \<and> r3 = Inr (VNum 2) \<and> recomputations s3 = 2))))"
proof -
  have d: "distinct [1, 2, 3 :: nat]" by simp
  show ?thesis
    using d scenario_A [OF d, where w = "initial_world ()"]
    by (auto simp add: recomputations_method_def split: sum.splits prod.splits)
qed


section \<open>The input-stability check\<close>

lemmas run_defs = call_selector_def memoize_def internalMemoize_def dependenciesChecker_def
      stabilityCheckDue_def finalStabilityCheck_def inputStabilityCheckBody_def
      inputStabilityCheckStatement_def compute_result_def makeAnObject_def
      memoizedResultFunc_def recomputationWrapper_def first_option_def new_selectorState_def
      new_slot_def pure_function_def at_index_def
      argsEquals_def every_def defaultValueEquals_def new_object_def console_warn_def
      initial_world_def setInputStabilityCheckEnabled_def Let_def

lemma apply_each_pure:
  "apply_each (map pure_function gs) args w = (collect gs args, w)"
  by (induction gs) (auto simp add: pure_function_def split: sum.splits)

lemma makeAnObject_returns:
  "\<exists>v st' w'. makeAnObject opts args st w = (Inr v, st', w')
      \<and> core st' = core st \<and> firstRun st' = firstRun st
      \<and> user w' = user w \<and> console w' = console w
      \<and> production w' = production w \<and> globalStabilityCheck w' = globalStabilityCheck w
      \<and> nextRef w \<le> nextRef w'"
  by (simp add: makeAnObject_def memoize_def internalMemoize_def new_object_def core_def Let_def)

lemma check_body_completes:
  assumes "apply_each deps args w = (Inr paramsCopy, w1)"
  shows "\<exists>st' w'. inputStabilityCheckBody deps opts args params st w = (None, st', w')
          \<and> core st' = core st \<and> user w' = user w1 \<and> firstRun st' = False
          \<and> (console w' = console w1 \<or> console w' = console w1 @ [Warning args params paramsCopy])
          \<and> nextRef w1 \<le> nextRef w'"
proof -
  obtain v1 st1 w2 where m1: "makeAnObject opts params st w1 = (Inr v1, st1, w2)"
    "core st1 = core st" "user w2 = user w1" "console w2 = console w1" "firstRun st1 = firstRun st"
    "nextRef w1 \<le> nextRef w2"
    using makeAnObject_returns [of opts params st w1] by blast
  obtain v2 st2 w3 where m2: "makeAnObject opts paramsCopy st1 w2 = (Inr v2, st2, w3)"
    "core st2 = core st1" "user w3 = user w2" "console w3 = console w2" "firstRun st2 = firstRun st1"
    "nextRef w2 \<le> nextRef w3"
    using makeAnObject_returns [of opts paramsCopy st1 w2] by blast
  show ?thesis
    using m1 m2
    by (simp add: inputStabilityCheckBody_def assms console_warn_def core_def Let_def)
qed

lemma check_skipped:
  assumes first: "apply_each (the_dependencies sel) args w = (Inr P, w1)"
      and not_due: "\<not> stabilityCheckDue (the_inputStabilityCheck sel) st w1"
  shows "dependenciesChecker sel args st w = compute_result sel P st w1"
  by (simp add: dependenciesChecker_def inputStabilityCheckStatement_def first not_due)

lemma check_is_advisory:
  assumes first: "apply_each (the_dependencies sel) args w = (Inr P, w1)"
      and due: "stabilityCheckDue (the_inputStabilityCheck sel) st w1"
      and second: "apply_each (the_dependencies sel) args w1 = (Inr P', w2)"
  shows "\<exists>st2 w3. dependenciesChecker sel args st w = compute_result sel P st2 w3
           \<and> core st2 = core st \<and> user w3 = user w2
           \<and> (console w3 = console w2 \<or> console w3 = console w2 @ [Warning args P P'])"
proof -
  obtain st2 w3 where b: "inputStabilityCheckBody (the_dependencies sel) (finalMemoizeOptions sel)
                        args P st w1 = (None, st2, w3)"
     "core st2 = core st" "user w3 = user w2"
     "console w3 = console w2 \<or> console w3 = console w2 @ [Warning args P P']"
    using check_body_completes [OF second, of "finalMemoizeOptions sel" P st] by blast
  have "dependenciesChecker sel args st w = compute_result sel P st2 w3"
    by (simp add: dependenciesChecker_def inputStabilityCheckStatement_def first due b(1))
  with b show ?thesis by blast
qed

lemma check_statement_pure:
  assumes "collect gs args = Inr params'"
  shows "\<exists>st2 w2. inputStabilityCheckStatement ov (map pure_function gs) opts args params st w
                    = (None, st2, w2)
           \<and> core st2 = core st \<and> user w2 = user w"
proof (cases "stabilityCheckDue ov st w")
  case True
  have a: "apply_each (map pure_function gs) args w = (Inr params', w)"
    by (simp add: apply_each_pure assms)
  show ?thesis
    using True check_body_completes [OF a, of opts params st]
    by (auto simp add: inputStabilityCheckStatement_def)
next
  case False
  then show ?thesis by (simp add: inputStabilityCheckStatement_def)
qed

lemma call_selector_unfold:
  "call_selector sel args st w =
     (if answered_from_slot args st then (Inr (lastResult (selector_slot st)), st, w)
      else (case dependenciesChecker sel args st w of
              (Inl e, st', w') \<Rightarrow> (Inl e, st'\<lparr>selector_slot := selector_slot st\<lparr>lastArgs := Some args\<rparr>\<rparr>, w')
            | (Inr v, st', w') \<Rightarrow>
                (Inr v, st'\<lparr>selector_slot := \<lparr>lastArgs = Some args, lastResult = v\<rparr>\<rparr>, w')))"
  by (auto simp add: call_selector_def memoize_def internalMemoize_def answered_from_slot_def Let_def
      split: prod.splits sum.splits)

lemma instantiate_mono:
  "n \<le> snd (instantiate t n)" "n \<le> snd (instantiate_entries es n)"
  by (induction t n and es n rule: instantiate_instantiate_entries.induct)
     (auto split: prod.splits)

lemma build_each_mono: "n \<le> snd (build_each hs args n)"
proof (induction hs arbitrary: n)
  case Nil
  show ?case by simp
next
  case (Cons h hs)
  show ?case
  proof (cases "h args")
    case (Inl e)
    then show ?thesis by simp
  next
    case (Inr t)
    obtain v n1 where i: "instantiate t n = (v, n1)" by (cases "instantiate t n")
    have "n \<le> n1" using instantiate_mono(1) [of n t] i by simp
    moreover have "n1 \<le> snd (build_each hs args n1)" by (rule Cons.IH)
    ultimately show ?thesis
      using Inr i by (auto split: prod.splits sum.splits)
  qed
qed

lemma build_each_returns:
  "isl (fst (build_each hs args n)) = isl (fst (build_each hs args m))"
proof (induction hs arbitrary: n m)
  case Nil
  show ?case by simp
next
  case (Cons h hs)
  show ?case
  proof (cases "h args")
    case (Inl e)
    then show ?thesis by simp
  next
    case (Inr t)
    obtain v n1 where i: "instantiate t n = (v, n1)" by (cases "instantiate t n")
    obtain v' m1 where j: "instantiate t m = (v', m1)" by (cases "instantiate t m")
    show ?thesis
      using Inr i j Cons.IH [of n1 m1]
      by (auto split: prod.splits sum.splits)
  qed
qed

lemma building_throws: "h args = Inl e \<Longrightarrow> building h args w = (Inl e, w)"
  by (simp add: building_def)

lemma building_returns:
  "h args = Inr t \<Longrightarrow> instantiate t (nextRef w) = (v, n)
     \<Longrightarrow> building h args w = (Inr v, w\<lparr>nextRef := n\<rparr>)"
  by (simp add: building_def)

lemma apply_each_building:
  "apply_each (map building hs) args w
     = (fst (build_each hs args (nextRef w)), w\<lparr>nextRef := snd (build_each hs args (nextRef w))\<rparr>)"
proof (induction hs arbitrary: w)
  case Nil
  show ?case by simp
next
  case (Cons h hs)
  show ?case
  proof (cases "h args")
    case (Inl e)
    then show ?thesis by (simp add: building_throws)
  next
    case (Inr t)
    obtain v n1 where i: "instantiate t (nextRef w) = (v, n1)"
      by (cases "instantiate t (nextRef w)")
    show ?thesis
      using Inr i Cons.IH [of "w\<lparr>nextRef := n1\<rparr>"]
      by (simp add: building_returns [where h = h and args = args and w = w, OF Inr i] split: prod.splits sum.splits)
  qed
qed

lemma building_pure_function:
  "pure_function g = building (\<lambda>args. case g args of Inl e \<Rightarrow> Inl e | Inr v \<Rightarrow> Inr (Old v))"
  by (rule ext, rule ext) (simp add: pure_function_def building_def split: sum.splits)

lemma building_fresh_object: "fresh_object = building (\<lambda>args. Inr (New []))"
  by (rule ext, rule ext) (simp add: fresh_object_def building_def new_object_def)


lemma instantiate_entries_old:
  "instantiate_entries (map (\<lambda>p. (fst p, Old (snd p))) props) n = (props, n)"
  by (induction props) simp_all

lemma reduce_from_set_property:
  "reduce_from i (\<lambda>composition value index. set_property composition (key_at objectKeys index) value)
       (VObj ref props) values
     = VObj ref (reduce_from i (\<lambda>ps value index. update_entry (key_at objectKeys index) value ps)
                   props values)"
  by (induction "values" arbitrary: i props) simp_all

lemma building_structuredCombiner:
  "structuredCombiner objectKeys
     = building (\<lambda>values. Inr (New (map (\<lambda>p. (fst p, Old (snd p)))
         (reduce_from 0 (\<lambda>ps value index. update_entry (key_at objectKeys index) value ps)
            [] values))))"
  by (rule ext, rule ext)
     (simp add: structuredCombiner_def building_def new_object_def reduce_from_set_property
        instantiate_entries_old)

lemma check_statement_building:
  assumes first: "fst (build_each hs args n0) = Inr P0"
  shows "\<exists>st2 w2. inputStabilityCheckStatement ov (map building hs) opts args params st w
                    = (None, st2, w2)
           \<and> core st2 = core st \<and> user w2 = user w \<and> nextRef w \<le> nextRef w2"
proof (cases "stabilityCheckDue ov st w")
  case True
  have "\<not> isl (fst (build_each hs args (nextRef w)))"
    using build_each_returns [of hs args "nextRef w" n0] first by simp
  then obtain P' where p: "fst (build_each hs args (nextRef w)) = Inr P'"
    by (cases "fst (build_each hs args (nextRef w))") simp_all
  let ?w1 = "w\<lparr>nextRef := snd (build_each hs args (nextRef w))\<rparr>"
  have a: "apply_each (map building hs) args w = (Inr P', ?w1)"
    by (simp add: apply_each_building p)
  have m: "nextRef w \<le> nextRef ?w1"
    using build_each_mono [of "nextRef w" hs args] by simp
  obtain st' w' where b: "inputStabilityCheckBody (map building hs) opts args params st w
                            = (None, st', w')"
      "core st' = core st" "user w' = user ?w1" "nextRef ?w1 \<le> nextRef w'"
    using check_body_completes [OF a, of opts params st] by blast
  have "inputStabilityCheckStatement ov (map building hs) opts args params st w = (None, st', w')"
    using True b(1) by (simp add: inputStabilityCheckStatement_def)
  moreover have "user w' = user w" using b(3) by simp
  moreover have "nextRef w \<le> nextRef w'" using m b(4) by simp
  ultimately show ?thesis using b(2) by blast
next
  case False
  then show ?thesis by (simp add: inputStabilityCheckStatement_def)
qed

lemma compute_result_building:
  assumes rfA: "the_resultFunc selA = building c"
      and rfB: "the_resultFunc selB = building c"
      and opts: "finalMemoizeOptions selA = finalMemoizeOptions selB"
      and core: "core stA = core stB"
  shows "(fst (compute_result selA params stA wA) = fst (compute_result selB params stB wB)
          \<or> (\<exists>t. fst (compute_result selA params stA wA) = Inr (fst (instantiate t (nextRef wA)))
                \<and> fst (compute_result selB params stB wB) = Inr (fst (instantiate t (nextRef wB)))))
       \<and> recomputations (fst (snd (compute_result selA params stA wA)))
           = recomputations (fst (snd (compute_result selB params stB wB)))
       \<and> lastArgs (memoizedResultFunc_slot (fst (snd (compute_result selA params stA wA))))
           = lastArgs (memoizedResultFunc_slot (fst (snd (compute_result selB params stB wB))))
       \<and> selector_slot (fst (snd (compute_result selA params stA wA))) = selector_slot stA
       \<and> selector_slot (fst (snd (compute_result selB params stB wB))) = selector_slot stB
       \<and> user (snd (snd (compute_result selA params stA wA))) = user wA
       \<and> user (snd (snd (compute_result selB params stB wB))) = user wB"
proof -
  let ?eq = "case first_option (finalMemoizeOptions selB) of None \<Rightarrow> defaultValueEquals | Some eq \<Rightarrow> eq"
  have slot: "memoizedResultFunc_slot stA = memoizedResultFunc_slot stB"
    and rc: "recomputations stA = recomputations stB"
    using core by (simp_all add: core_def)
  show ?thesis
  proof (cases "lastArgs (memoizedResultFunc_slot stB) \<noteq> None
                \<and> argsEquals params (the (lastArgs (memoizedResultFunc_slot stB))) ?eq")
    case True
    then show ?thesis
      using slot rc
      by (simp add: compute_result_def memoizedResultFunc_def memoize_def internalMemoize_def opts)
  next
    case False
    show ?thesis
    proof (cases "c params")
      case (Inl e)
      then show ?thesis
        using False slot rc
        by (simp add: compute_result_def memoizedResultFunc_def memoize_def internalMemoize_def
            recomputationWrapper_def opts rfA rfB building_throws Let_def)
    next
      case (Inr t)
      obtain vA nA where a: "instantiate t (nextRef wA) = (vA, nA)"
        by (cases "instantiate t (nextRef wA)")
      obtain vB nB where b: "instantiate t (nextRef wB) = (vB, nB)"
        by (cases "instantiate t (nextRef wB)")
      have ra: "fst (compute_result selA params stA wA) = Inr (fst (instantiate t (nextRef wA)))"
        and rb: "fst (compute_result selB params stB wB) = Inr (fst (instantiate t (nextRef wB)))"
        using False slot rc a b
        by (auto simp add: compute_result_def memoizedResultFunc_def memoize_def internalMemoize_def
            recomputationWrapper_def opts rfA rfB Let_def
            building_returns [where h = c and args = params, OF Inr a]
            building_returns [where h = c and args = params, OF Inr b])
      have rest: "recomputations (fst (snd (compute_result selA params stA wA)))
           = recomputations (fst (snd (compute_result selB params stB wB)))
       \<and> lastArgs (memoizedResultFunc_slot (fst (snd (compute_result selA params stA wA))))
           = lastArgs (memoizedResultFunc_slot (fst (snd (compute_result selB params stB wB))))
       \<and> selector_slot (fst (snd (compute_result selA params stA wA))) = selector_slot stA
       \<and> selector_slot (fst (snd (compute_result selB params stB wB))) = selector_slot stB
       \<and> user (snd (snd (compute_result selA params stA wA))) = user wA
       \<and> user (snd (snd (compute_result selB params stB wB))) = user wB"
        using False slot rc a b
        by (auto simp add: compute_result_def memoizedResultFunc_def memoize_def internalMemoize_def
            recomputationWrapper_def opts rfA rfB Let_def
            building_returns [where h = c and args = params, OF Inr a]
            building_returns [where h = c and args = params, OF Inr b])
      from ra rb rest show ?thesis by blast
    qed
  qed
qed


lemma dependenciesChecker_building:
  assumes depsA: "the_dependencies selA = map building hs"
      and depsB: "the_dependencies selB = map building hs"
      and rfA: "the_resultFunc selA = building c"
      and rfB: "the_resultFunc selB = building c"
      and opts: "finalMemoizeOptions selA = finalMemoizeOptions selB"
      and core: "core stA = core stB"
      and refs: "nextRef wA = nextRef wB"
  shows "(fst (dependenciesChecker selA args stA wA) = fst (dependenciesChecker selB args stB wB)
          \<or> (\<exists>t nA nB. nextRef wA \<le> nA \<and> nextRef wB \<le> nB
                \<and> fst (dependenciesChecker selA args stA wA) = Inr (fst (instantiate t nA))
                \<and> fst (dependenciesChecker selB args stB wB) = Inr (fst (instantiate t nB))))
       \<and> recomputations (fst (snd (dependenciesChecker selA args stA wA)))
           = recomputations (fst (snd (dependenciesChecker selB args stB wB)))
       \<and> lastArgs (memoizedResultFunc_slot (fst (snd (dependenciesChecker selA args stA wA))))
           = lastArgs (memoizedResultFunc_slot (fst (snd (dependenciesChecker selB args stB wB))))
       \<and> selector_slot (fst (snd (dependenciesChecker selA args stA wA))) = selector_slot stA
       \<and> selector_slot (fst (snd (dependenciesChecker selB args stB wB))) = selector_slot stB
       \<and> user (snd (snd (dependenciesChecker selA args stA wA))) = user wA
       \<and> user (snd (snd (dependenciesChecker selB args stB wB))) = user wB"
proof (cases "fst (build_each hs args (nextRef wB))")
  case (Inl e)
  then show ?thesis
    using core
    by (simp add: dependenciesChecker_def depsA depsB apply_each_building refs core_def)
next
  case (Inr P)
  let ?n1 = "snd (build_each hs args (nextRef wB))"
  have n1: "nextRef wB \<le> ?n1" by (rule build_each_mono)
  obtain stA2 wA2 where a:
    "inputStabilityCheckStatement (the_inputStabilityCheck selA) (map building hs)
       (finalMemoizeOptions selA) args P stA (wA\<lparr>nextRef := ?n1\<rparr>) = (None, stA2, wA2)"
    "core stA2 = core stA" "user wA2 = user (wA\<lparr>nextRef := ?n1\<rparr>)"
    "nextRef (wA\<lparr>nextRef := ?n1\<rparr>) \<le> nextRef wA2"
    using check_statement_building [OF Inr] by blast
  obtain stB2 wB2 where b:
    "inputStabilityCheckStatement (the_inputStabilityCheck selB) (map building hs)
       (finalMemoizeOptions selB) args P stB (wB\<lparr>nextRef := ?n1\<rparr>) = (None, stB2, wB2)"
    "core stB2 = core stB" "user wB2 = user (wB\<lparr>nextRef := ?n1\<rparr>)"
    "nextRef (wB\<lparr>nextRef := ?n1\<rparr>) \<le> nextRef wB2"
    using check_statement_building [OF Inr] by blast
  have da: "dependenciesChecker selA args stA wA = compute_result selA P stA2 wA2"
    by (simp add: dependenciesChecker_def depsA apply_each_building refs Inr a(1))
  have db: "dependenciesChecker selB args stB wB = compute_result selB P stB2 wB2"
    by (simp add: dependenciesChecker_def depsB apply_each_building Inr b(1))
  have c2: "core stA2 = core stB2"
    using a(2) b(2) core by simp
  have sa: "selector_slot stA2 = selector_slot stA" and sb: "selector_slot stB2 = selector_slot stB"
    using a(2) b(2) by (simp_all add: core_def)
  have bounds: "nextRef wA \<le> nextRef wA2" "nextRef wB \<le> nextRef wB2"
    using n1 a(4) b(4) refs by simp_all
  have ua: "user wA2 = user wA" and ub: "user wB2 = user wB"
    using a(3) b(3) by simp_all
  note cr = compute_result_building [OF rfA rfB opts c2, of P wA2 wB2]
  have result: "fst (compute_result selA P stA2 wA2) = fst (compute_result selB P stB2 wB2)
          \<or> (\<exists>t nA nB. nextRef wA \<le> nA \<and> nextRef wB \<le> nB
                \<and> fst (compute_result selA P stA2 wA2) = Inr (fst (instantiate t nA))
                \<and> fst (compute_result selB P stB2 wB2) = Inr (fst (instantiate t nB)))"
    using cr bounds by blast
  show ?thesis
    unfolding da db
    using result cr sa sb ua ub by simp
qed

text \<open>
  Claim C9. Two runs of the same call are compared. In both, the input selectors and the
  result function are the same functions without side effects: what they return or throw
  depends on their arguments only, and they may build new objects. So an input selector may
  return a new reference each time, which is what the check warns of, and the result
  function may build its result, as the one of \<open>createStructuredSelector\<close> does. The
  options of the memoizer are the same, and the variables that decide the result
  (\<open>core\<close>) and the next reference start equal. Everything about the stability check may
  differ: the per-selector setting, the global setting, production or not, \<open>firstRun\<close>,
  the slot of \<open>makeAnObject\<close>. Then both runs throw the same thing or return the same
  value: the very same one when it comes from a cache or existed before, and otherwise the
  same newly built value, one template instantiated at the next reference of each run. The
  run with the check has handed out references in between, so its new objects carry later
  reference numbers; nothing else differs. Both runs leave the same number of
  recomputations and the same cached arguments in the two caches of the selector, and
  neither touches the user's part of the world.
  And for any selector, with or without side effects: when the check is due and both rounds
  of the input selectors return, \<open>P\<close> first and \<open>P'\<close> second, the check raises
  nothing, it writes at most one warning (with \<open>P\<close> and \<open>P'\<close>) to the console, and
  the call goes on to compute its result from \<open>P\<close>.
\<close>

theorem stability_check_noninterference:
  fixes selA selB sel :: "'u outputSelector"
  assumes depsA: "the_dependencies selA = map building hs"
      and depsB: "the_dependencies selB = map building hs"
      and rfA: "the_resultFunc selA = building c"
      and rfB: "the_resultFunc selB = building c"
      and opts: "finalMemoizeOptions selA = finalMemoizeOptions selB"
      and core: "core stA = core stB"
      and refs: "nextRef wA = nextRef wB"
  shows "(fst (call_selector selA args stA wA) = fst (call_selector selB args stB wB)
          \<or> (\<exists>t nA nB. nextRef wA \<le> nA \<and> nextRef wB \<le> nB
                \<and> fst (call_selector selA args stA wA) = Inr (fst (instantiate t nA))
                \<and> fst (call_selector selB args stB wB) = Inr (fst (instantiate t nB))))
       \<and> recomputations (fst (snd (call_selector selA args stA wA)))
           = recomputations (fst (snd (call_selector selB args stB wB)))
       \<and> lastArgs (memoizedResultFunc_slot (fst (snd (call_selector selA args stA wA))))
           = lastArgs (memoizedResultFunc_slot (fst (snd (call_selector selB args stB wB))))
       \<and> lastArgs (selector_slot (fst (snd (call_selector selA args stA wA))))
           = lastArgs (selector_slot (fst (snd (call_selector selB args stB wB))))
       \<and> user (snd (snd (call_selector selA args stA wA))) = user wA
       \<and> user (snd (snd (call_selector selB args stB wB))) = user wB
       \<and> (\<forall>st w P w1 P' w2.
             apply_each (the_dependencies sel) args w = (Inr P, w1)
             \<and> stabilityCheckDue (the_inputStabilityCheck sel) st w1
             \<and> apply_each (the_dependencies sel) args w1 = (Inr P', w2)
             \<longrightarrow> (\<exists>st2 w3. dependenciesChecker sel args st w = compute_result sel P st2 w3
                    \<and> core st2 = core st \<and> user w3 = user w2
                    \<and> (console w3 = console w2
                        \<or> console w3 = console w2 @ [Warning args P P'])))"
proof -
  have slot: "selector_slot stA = selector_slot stB"
    and memo: "memoizedResultFunc_slot stA = memoizedResultFunc_slot stB"
    and rc: "recomputations stA = recomputations stB"
    using core by (simp_all add: core_def)
  then have hit: "answered_from_slot args stA = answered_from_slot args stB"
    by (simp add: answered_from_slot_def)
  have two_runs: "(fst (call_selector selA args stA wA) = fst (call_selector selB args stB wB)
          \<or> (\<exists>t nA nB. nextRef wA \<le> nA \<and> nextRef wB \<le> nB
                \<and> fst (call_selector selA args stA wA) = Inr (fst (instantiate t nA))
                \<and> fst (call_selector selB args stB wB) = Inr (fst (instantiate t nB))))
       \<and> recomputations (fst (snd (call_selector selA args stA wA)))
           = recomputations (fst (snd (call_selector selB args stB wB)))
       \<and> lastArgs (memoizedResultFunc_slot (fst (snd (call_selector selA args stA wA))))
           = lastArgs (memoizedResultFunc_slot (fst (snd (call_selector selB args stB wB))))
       \<and> lastArgs (selector_slot (fst (snd (call_selector selA args stA wA))))
           = lastArgs (selector_slot (fst (snd (call_selector selB args stB wB))))
       \<and> user (snd (snd (call_selector selA args stA wA))) = user wA
       \<and> user (snd (snd (call_selector selB args stB wB))) = user wB"
  proof (cases "answered_from_slot args stA")
    case True
    with hit show ?thesis
      using slot memo rc by (simp add: call_selector_unfold)
  next
    case False
    obtain rA stA' wA' where a: "dependenciesChecker selA args stA wA = (rA, stA', wA')"
      by (cases "dependenciesChecker selA args stA wA")
    obtain rB stB' wB' where b: "dependenciesChecker selB args stB wB = (rB, stB', wB')"
      by (cases "dependenciesChecker selB args stB wB")
    note d = dependenciesChecker_building [OF depsA depsB rfA rfB opts core refs, of args,
        unfolded a b fst_conv snd_conv]
    have fa: "fst (call_selector selA args stA wA) = rA"
      and fb: "fst (call_selector selB args stB wB) = rB"
      using False hit by (simp_all add: call_selector_unfold a b split: sum.splits)
    have rest: "recomputations (fst (snd (call_selector selA args stA wA))) = recomputations stA'"
      "recomputations (fst (snd (call_selector selB args stB wB))) = recomputations stB'"
      "memoizedResultFunc_slot (fst (snd (call_selector selA args stA wA))) = memoizedResultFunc_slot stA'"
      "memoizedResultFunc_slot (fst (snd (call_selector selB args stB wB))) = memoizedResultFunc_slot stB'"
      "lastArgs (selector_slot (fst (snd (call_selector selA args stA wA)))) = Some args"
      "lastArgs (selector_slot (fst (snd (call_selector selB args stB wB)))) = Some args"
      "user (snd (snd (call_selector selA args stA wA))) = user wA'"
      "user (snd (snd (call_selector selB args stB wB))) = user wB'"
      using False hit by (simp_all add: call_selector_unfold a b split: sum.splits)
    show ?thesis
      unfolding fa fb rest using d by simp
  qed
  have advisory: "\<forall>st w P w1 P' w2.
             apply_each (the_dependencies sel) args w = (Inr P, w1)
             \<and> stabilityCheckDue (the_inputStabilityCheck sel) st w1
             \<and> apply_each (the_dependencies sel) args w1 = (Inr P', w2)
             \<longrightarrow> (\<exists>st2 w3. dependenciesChecker sel args st w = compute_result sel P st2 w3
                    \<and> core st2 = core st \<and> user w3 = user w2
                    \<and> (console w3 = console w2
                        \<or> console w3 = console w2 @ [Warning args P P']))"
    using check_is_advisory by blast
  from two_runs advisory show ?thesis by blast
qed


theorem stability_check_noninterference_witness:
  "createStructuredSelector (AObj [(''x'', AFunc [] fresh_object)]) createSelector
     = Inr fresh_x_selector
   \<and> the_dependencies fresh_x_selector = map building [\<lambda>args. Inr (New [])]
   \<and> the_resultFunc fresh_x_selector
       = building (\<lambda>values. Inr (New (map (\<lambda>p. (fst p, Old (snd p)))
           (reduce_from 0 (\<lambda>ps value index. update_entry (key_at [''x''] index) value ps)
              [] values))))
   \<and> core new_selectorState = core new_selectorState
   \<and> nextRef (initial_world ()) = nextRef (setInputStabilityCheckEnabled Never (initial_world ()))
   \<and> fst (call_selector fresh_x_selector [] new_selectorState (initial_world ()))
       = Inr (VObj 4 [(''x'', VObj 0 [])])
   \<and> console (snd (snd (call_selector fresh_x_selector [] new_selectorState (initial_world ()))))
       = [Warning [] [VObj 0 []] [VObj 1 []]]
   \<and> fst (call_selector fresh_x_selector [] new_selectorState
            (setInputStabilityCheckEnabled Never (initial_world ())))
       = Inr (VObj 1 [(''x'', VObj 0 [])])
   \<and> console (snd (snd (call_selector fresh_x_selector [] new_selectorState
            (setInputStabilityCheckEnabled Never (initial_world ()))))) = []
   \<and> fst (instantiate (New [(''x'', Old (VObj 0 []))]) 4) = VObj 4 [(''x'', VObj 0 [])]
   \<and> fst (instantiate (New [(''x'', Old (VObj 0 []))]) 1) = VObj 1 [(''x'', VObj 0 [])]
   \<and> recomputations (fst (snd (call_selector fresh_x_selector [] new_selectorState
                                  (initial_world ()))))
       = recomputations (fst (snd (call_selector fresh_x_selector [] new_selectorState
                                     (setInputStabilityCheckEnabled Never (initial_world ())))))
   \<and> createSelector [AFunc [] fresh_object, AFunc [] identity_function] = Inr unstable_selector
   \<and> apply_each (the_dependencies unstable_selector) [] (initial_world ())
       = (Inr [VObj 0 []], (initial_world ())\<lparr>nextRef := 1\<rparr>)
   \<and> stabilityCheckDue (the_inputStabilityCheck unstable_selector) new_selectorState
        ((initial_world ())\<lparr>nextRef := 1\<rparr>)
   \<and> apply_each (the_dependencies unstable_selector) [] ((initial_world ())\<lparr>nextRef := 1\<rparr>)
       = (Inr [VObj 1 []], (initial_world ())\<lparr>nextRef := 2\<rparr>)
   \<and> fst (call_selector unstable_selector [] new_selectorState (initial_world ()))
       = Inr (VObj 0 [])
   \<and> console (snd (snd (call_selector unstable_selector [] new_selectorState (initial_world ()))))
       = [Warning [] [VObj 0 []] [VObj 1 []]]"
proof -
  let ?c = "\<lambda>values. Inr (New (map (\<lambda>p. (fst p, Old (snd p)))
           (reduce_from 0 (\<lambda>ps value index. update_entry (key_at [''x''] index) value ps)
              [] values))) :: exn + template"
  let ?off = "setInputStabilityCheckEnabled Never (initial_world ())"
  have mk: "createStructuredSelector (AObj [(''x'', AFunc [] fresh_object)]) createSelector
     = Inr fresh_x_selector"
    by (simp add: createStructuredSelector_def own_property_order_def array_index_def is_digit_def
        property_of_def createSelector_def createSelectorCreator_def take_resultFunc_def pop_def
        fresh_x_selector_def no_options_def getDependencies_def dependencies_of_def every_def
        List.map_filter_simps Let_def)
  have d: "the_dependencies fresh_x_selector = map building [\<lambda>args. Inr (New [])]"
    by (simp add: fresh_x_selector_def building_fresh_object)
  have r: "the_resultFunc fresh_x_selector = building ?c"
    by (simp add: fresh_x_selector_def building_structuredCombiner)
  have oo: "finalMemoizeOptions fresh_x_selector = finalMemoizeOptions fresh_x_selector" by simp
  have co: "core new_selectorState = core new_selectorState" by simp
  have nr: "nextRef (initial_world ()) = nextRef ?off"
    by (simp add: initial_world_def setInputStabilityCheckEnabled_def)
  have runA: "call_selector fresh_x_selector [] new_selectorState (initial_world ())
       = (Inr (VObj 4 [(''x'', VObj 0 [])]),
          \<lparr>recomputations = 1, lastResultVar = VObj 4 [(''x'', VObj 0 [])], firstRun = False,
            memoizedResultFunc_slot
              = \<lparr>lastArgs = Some [VObj 0 []], lastResult = VObj 4 [(''x'', VObj 0 [])]\<rparr>,
            makeAnObject_slot = \<lparr>lastArgs = Some [VObj 1 []], lastResult = VObj 3 []\<rparr>,
            selector_slot = \<lparr>lastArgs = Some [], lastResult = VObj 4 [(''x'', VObj 0 [])]\<rparr>\<rparr>,
          \<lparr>globalStabilityCheck = Once, production = False,
            console = [Warning [] [VObj 0 []] [VObj 1 []]], nextRef = 5, user = ()\<rparr>)"
    by (simp add: run_defs fresh_x_selector_def fresh_object_def structuredCombiner_def key_at_def)
  have runB: "call_selector fresh_x_selector [] new_selectorState ?off
       = (Inr (VObj 1 [(''x'', VObj 0 [])]),
          \<lparr>recomputations = 1, lastResultVar = VObj 1 [(''x'', VObj 0 [])], firstRun = True,
            memoizedResultFunc_slot
              = \<lparr>lastArgs = Some [VObj 0 []], lastResult = VObj 1 [(''x'', VObj 0 [])]\<rparr>,
            makeAnObject_slot = new_slot,
            selector_slot = \<lparr>lastArgs = Some [], lastResult = VObj 1 [(''x'', VObj 0 [])]\<rparr>\<rparr>,
          \<lparr>globalStabilityCheck = Never, production = False,
            console = [], nextRef = 2, user = ()\<rparr>)"
    by (simp add: run_defs fresh_x_selector_def fresh_object_def structuredCombiner_def key_at_def)
  have i4: "fst (instantiate (New [(''x'', Old (VObj 0 []))]) 4) = VObj 4 [(''x'', VObj 0 [])]"
    and i1: "fst (instantiate (New [(''x'', Old (VObj 0 []))]) 1) = VObj 1 [(''x'', VObj 0 [])]"
    by simp_all
  have a1: "apply_each (the_dependencies unstable_selector) [] (initial_world ())
       = (Inr [VObj 0 []], (initial_world ())\<lparr>nextRef := 1\<rparr>)"
    and a2: "apply_each (the_dependencies unstable_selector) [] ((initial_world ())\<lparr>nextRef := 1\<rparr>)
       = (Inr [VObj 1 []], (initial_world ())\<lparr>nextRef := 2\<rparr>)"
    and due: "stabilityCheckDue (the_inputStabilityCheck unstable_selector) new_selectorState
        ((initial_world ())\<lparr>nextRef := 1\<rparr>)"
    by (simp_all add: unstable_selector_def fresh_object_def run_defs)
  have runU: "call_selector unstable_selector [] new_selectorState (initial_world ())
       = (Inr (VObj 0 []),
          \<lparr>recomputations = 1, lastResultVar = VObj 0 [], firstRun = False,
            memoizedResultFunc_slot = \<lparr>lastArgs = Some [VObj 0 []], lastResult = VObj 0 []\<rparr>,
            makeAnObject_slot = \<lparr>lastArgs = Some [VObj 1 []], lastResult = VObj 3 []\<rparr>,
            selector_slot = \<lparr>lastArgs = Some [], lastResult = VObj 0 []\<rparr>\<rparr>,
          \<lparr>globalStabilityCheck = Once, production = False,
            console = [Warning [] [VObj 0 []] [VObj 1 []]], nextRef = 4, user = ()\<rparr>)"
    by (simp add: run_defs unstable_selector_def fresh_object_def identity_function_def)
  have mkU: "createSelector [AFunc [] fresh_object, AFunc [] identity_function] = Inr unstable_selector"
    by (simp add: createSelector_basic unstable_selector_def)
  note inst = stability_check_noninterference
      [OF d d r r oo co nr, where sel = unstable_selector and args = "[]"]
  have rc: "recomputations (fst (snd (call_selector fresh_x_selector [] new_selectorState
                                  (initial_world ()))))
       = recomputations (fst (snd (call_selector fresh_x_selector [] new_selectorState ?off)))"
    using inst by blast
  from mk d r co nr runA runB i4 i1 rc mkU a1 due a2 runU show ?thesis
    by simp
qed


lemma apply_each_ticking:
  "apply_each (map ticking gs) args w
     = (Inr (map (\<lambda>g. g args) gs), w\<lparr>user := user w + length gs\<rparr>)"
  by (induction gs arbitrary: w) (simp_all add: ticking_def)

lemma stabilityCheckDue_user [simp]:
  "stabilityCheckDue ov st (w\<lparr>user := u\<rparr>) = stabilityCheckDue ov st w"
  by (cases ov) (simp_all add: stabilityCheckDue_def finalStabilityCheck_def)

lemma compute_result_frame:
  assumes "the_resultFunc sel = pure_function c"
  shows "firstRun (fst (snd (compute_result sel params st w))) = firstRun st
       \<and> user (snd (snd (compute_result sel params st w))) = user w"
  using assms
  by (cases "c params")
     (simp_all add: compute_result_def memoizedResultFunc_def memoize_def internalMemoize_def
        recomputationWrapper_def pure_function_def Let_def)

lemma dependenciesChecker_ticking:
  fixes sel :: "nat outputSelector"
  assumes deps: "the_dependencies sel = map ticking gs"
      and rf: "the_resultFunc sel = pure_function c"
  shows "user (snd (snd (dependenciesChecker sel args st w)))
           = user w + (if stabilityCheckDue (the_inputStabilityCheck sel) st w
                       then 2 * length gs else length gs)
       \<and> firstRun (fst (snd (dependenciesChecker sel args st w)))
           = (firstRun st \<and> \<not> stabilityCheckDue (the_inputStabilityCheck sel) st w)"
proof (cases "stabilityCheckDue (the_inputStabilityCheck sel) st w")
  case True
  let ?w1 = "w\<lparr>user := user w + length gs\<rparr>"
  let ?P = "map (\<lambda>g. g args) gs"
  have second: "apply_each (map ticking gs) args ?w1 = (Inr ?P, ?w1\<lparr>user := user ?w1 + length gs\<rparr>)"
    by (rule apply_each_ticking)
  obtain st2 w3 where b: "inputStabilityCheckBody (map ticking gs) (finalMemoizeOptions sel)
                        args ?P st ?w1 = (None, st2, w3)"
     "user w3 = user (?w1\<lparr>user := user ?w1 + length gs\<rparr>)" "firstRun st2 = False"
    using check_body_completes [OF second, of "finalMemoizeOptions sel" ?P st] by blast
  have d: "dependenciesChecker sel args st w = compute_result sel ?P st2 w3"
    using True
    by (simp add: dependenciesChecker_def inputStabilityCheckStatement_def deps
        apply_each_ticking b(1))
  show ?thesis
    using True compute_result_frame [OF rf, of ?P st2 w3] b(2,3)
    by (simp add: d)
next
  case False
  let ?w1 = "w\<lparr>user := user w + length gs\<rparr>"
  let ?P = "map (\<lambda>g. g args) gs"
  have d: "dependenciesChecker sel args st w = compute_result sel ?P st ?w1"
    using False
    by (simp add: dependenciesChecker_def inputStabilityCheckStatement_def deps
        apply_each_ticking)
  show ?thesis
    using False compute_result_frame [OF rf, of ?P st ?w1]
    by (simp add: d)
qed

text \<open>
  Claim C8, as stated, fails under \<open>always\<close>. The selector is
  \<open>createSelector((...args) => args[0], a => a)\<close>, new, with an input selector that
  counts its invocations, and the build is not production. The first call runs the input
  selector twice: the check fires. A second call with the same argument runs it not at
  all: the call is answered from the selector's own slot, \<open>dependenciesChecker\<close> does
  not run, and the check, which sits inside it, does not fire.
\<close>

theorem check_frequency_counterexample:
  "createSelector [AFunc [] ticking_first, AFunc [] identity_function] = Inr probe_selector
   \<and> finalStabilityCheck (the_inputStabilityCheck probe_selector)
         (setInputStabilityCheckEnabled Always (initial_world 0)) = Always
   \<and> \<not> production (setInputStabilityCheckEnabled Always (initial_world (0::nat)))
   \<and> invocations (call_selector probe_selector [VNum 5] new_selectorState
         (setInputStabilityCheckEnabled Always (initial_world 0))) = 2
   \<and> finalStabilityCheck (the_inputStabilityCheck probe_selector)
         (snd (snd (call_selector probe_selector [VNum 5] new_selectorState
            (setInputStabilityCheckEnabled Always (initial_world 0))))) = Always
   \<and> invocations (then_call probe_selector [VNum 5]
         (call_selector probe_selector [VNum 5] new_selectorState
            (setInputStabilityCheckEnabled Always (initial_world 0)))) = 2"
proof -
  have mk: "createSelector [AFunc [] ticking_first, AFunc [] identity_function] = Inr probe_selector"
    by (simp add: createSelector_basic probe_selector_def)
  have always1: "call_selector probe_selector [VNum 5] new_selectorState
         (setInputStabilityCheckEnabled Always (initial_world 0))
       = (Inr (VNum 5),
          \<lparr>recomputations = 1, lastResultVar = VNum 5, firstRun = False,
            memoizedResultFunc_slot = \<lparr>lastArgs = Some [VNum 5], lastResult = VNum 5\<rparr>,
            makeAnObject_slot = \<lparr>lastArgs = Some [VNum 5], lastResult = VObj 0 []\<rparr>,
            selector_slot = \<lparr>lastArgs = Some [VNum 5], lastResult = VNum 5\<rparr>\<rparr>,
          \<lparr>globalStabilityCheck = Always, production = False, console = [], nextRef = 1,
            user = 2\<rparr>)"
    by (simp add: run_defs probe_selector_def ticking_first_def ticking_def identity_function_def)
  have always2: "then_call probe_selector [VNum 5]
         (call_selector probe_selector [VNum 5] new_selectorState
            (setInputStabilityCheckEnabled Always (initial_world 0)))
       = (Inr (VNum 5),
          \<lparr>recomputations = 1, lastResultVar = VNum 5, firstRun = False,
            memoizedResultFunc_slot = \<lparr>lastArgs = Some [VNum 5], lastResult = VNum 5\<rparr>,
            makeAnObject_slot = \<lparr>lastArgs = Some [VNum 5], lastResult = VObj 0 []\<rparr>,
            selector_slot = \<lparr>lastArgs = Some [VNum 5], lastResult = VNum 5\<rparr>\<rparr>,
          \<lparr>globalStabilityCheck = Always, production = False, console = [], nextRef = 1,
            user = 2\<rparr>)"
    unfolding always1 then_call_def
    by (simp add: run_defs probe_selector_def)
  have f1: "finalStabilityCheck (the_inputStabilityCheck probe_selector)
         (setInputStabilityCheckEnabled Always (initial_world 0)) = Always"
    and p1: "\<not> production (setInputStabilityCheckEnabled Always (initial_world (0::nat)))"
    by (simp_all add: finalStabilityCheck_def probe_selector_def setInputStabilityCheckEnabled_def
        initial_world_def)
  have f2: "finalStabilityCheck (the_inputStabilityCheck probe_selector)
         (snd (snd (call_selector probe_selector [VNum 5] new_selectorState
            (setInputStabilityCheckEnabled Always (initial_world 0))))) = Always"
    unfolding always1 by (simp add: finalStabilityCheck_def probe_selector_def)
  have i1: "invocations (call_selector probe_selector [VNum 5] new_selectorState
         (setInputStabilityCheckEnabled Always (initial_world 0))) = 2"
    by (simp add: always1 invocations_def)
  have i2: "invocations (then_call probe_selector [VNum 5]
         (call_selector probe_selector [VNum 5] new_selectorState
            (setInputStabilityCheckEnabled Always (initial_world 0)))) = 2"
    by (simp add: always2 invocations_def)
  from mk f1 p1 i1 f2 i2 show ?thesis
    by (intro conjI)
qed

text \<open>
  Claim C8, amended. The observation is the one the library's own tests make: the input
  selectors count their invocations, and the check, when it fires, runs each of them a
  second time. The selector has such input selectors and a result function of its
  arguments alone; the state and the world are any. A call that is answered from the
  selector's own slot runs no input selector (no check, whatever the setting). Any other
  call runs them once, and a second time, for the check, exactly when the build is not
  production and the resolved frequency is \<open>always\<close>, or is \<open>once\<close> and the selector
  has never been called. For a call under \<open>once\<close> this is said of a selector whose
  \<open>firstRun\<close> flag tells whether it has never been called: so it is of a new selector,
  and so it stays from the first call on when that call is made with the check on (not in
  production, under \<open>always\<close> or \<open>once\<close>), whatever the later calls and changes of
  the global setting are.
\<close>

theorem stability_check_frequency:
  fixes sel :: "nat outputSelector"
  assumes deps: "the_dependencies sel = map ticking gs"
      and rf: "the_resultFunc sel = pure_function c"
      and once: "finalStabilityCheck (the_inputStabilityCheck sel) w = Once
                 \<longrightarrow> firstRun st = never_called st"
  shows "user (snd (snd (call_selector sel args st w)))
           = user w +
             (if answered_from_slot args st then 0
              else if \<not> production w \<and>
                      (finalStabilityCheck (the_inputStabilityCheck sel) w = Always
                       \<or> (finalStabilityCheck (the_inputStabilityCheck sel) w = Once
                           \<and> never_called st))
                   then 2 * length gs
                   else length gs)
       \<and> (firstRun st = never_called st
           \<and> (\<not> never_called st
                \<or> (\<not> production w
                    \<and> finalStabilityCheck (the_inputStabilityCheck sel) w \<noteq> Never))
           \<longrightarrow> firstRun (fst (snd (call_selector sel args st w)))
                 = never_called (fst (snd (call_selector sel args st w))))"
proof (cases "answered_from_slot args st")
  case True
  then have "\<not> never_called st"
    by (simp add: answered_from_slot_def never_called_def)
  with True show ?thesis by (simp add: call_selector_unfold)
next
  case False
  obtain r st' w' where d: "dependenciesChecker sel args st w = (r, st', w')"
    by (cases "dependenciesChecker sel args st w")
  have never: "finalStabilityCheck (the_inputStabilityCheck sel) w = Never
      \<longleftrightarrow> finalStabilityCheck (the_inputStabilityCheck sel) w \<noteq> Always
         \<and> finalStabilityCheck (the_inputStabilityCheck sel) w \<noteq> Once"
    by (cases "finalStabilityCheck (the_inputStabilityCheck sel) w") simp_all
  show ?thesis
    using False dependenciesChecker_ticking [OF deps rf, of args st w] never once
    by (cases r) (auto simp add: call_selector_unfold d stabilityCheckDue_def never_called_def)
qed

theorem stability_check_frequency_witness:
  "the_dependencies probe_selector = map ticking [\<lambda>args. at_index args 0]
   \<and> the_resultFunc probe_selector = pure_function (\<lambda>args. Inr (at_index args 0))
   \<and> finalStabilityCheck (the_inputStabilityCheck probe_selector) (initial_world 0) = Once
   \<and> firstRun new_selectorState = never_called new_selectorState
   \<and> \<not> answered_from_slot [VNum 5] new_selectorState
   \<and> \<not> production (initial_world (0::nat))
   \<and> finalStabilityCheck (the_inputStabilityCheck probe_selector) (initial_world 0) \<noteq> Never
   \<and> never_called new_selectorState
   \<and> user (snd (snd (call_selector probe_selector [VNum 5] new_selectorState (initial_world 0)))) = 2
   \<and> firstRun (fst (snd (call_selector probe_selector [VNum 5] new_selectorState (initial_world 0))))
       = never_called (fst (snd (call_selector probe_selector [VNum 5] new_selectorState
                                   (initial_world 0))))
   \<and> \<not> never_called (fst (snd (call_selector probe_selector [VNum 5] new_selectorState
                                   (initial_world 0))))"
proof -
  have d: "the_dependencies probe_selector = map ticking [\<lambda>args. at_index args 0]"
    and r: "the_resultFunc probe_selector = pure_function (\<lambda>args. Inr (at_index args 0))"
    by (simp_all add: probe_selector_def ticking_first_def identity_function_def)
  have t: "firstRun new_selectorState = never_called new_selectorState"
    and n: "never_called new_selectorState"
    by (simp_all add: never_called_def new_selectorState_def new_slot_def)
  have a: "\<not> answered_from_slot [VNum 5] new_selectorState"
    by (simp add: answered_from_slot_def new_selectorState_def new_slot_def)
  have f: "finalStabilityCheck (the_inputStabilityCheck probe_selector) (initial_world 0) = Once"
    and p: "\<not> production (initial_world (0::nat))" and u: "user (initial_world (0::nat)) = 0"
    by (simp_all add: finalStabilityCheck_def probe_selector_def initial_world_def)
  have f': "finalStabilityCheck (the_inputStabilityCheck probe_selector) (initial_world 0) \<noteq> Never"
    by (simp add: f)
  have o: "finalStabilityCheck (the_inputStabilityCheck probe_selector) (initial_world 0) = Once
           \<longrightarrow> firstRun new_selectorState = never_called new_selectorState"
    using t by simp
  have step: "user (snd (snd (call_selector probe_selector [VNum 5] new_selectorState
                  (initial_world 0)))) = 2
     \<and> firstRun (fst (snd (call_selector probe_selector [VNum 5] new_selectorState
                  (initial_world 0))))
       = never_called (fst (snd (call_selector probe_selector [VNum 5] new_selectorState
                                   (initial_world 0))))"
    using stability_check_frequency [OF d r o, where args = "[VNum 5]"]
    by (simp add: a f p u n t)
  have called: "\<not> never_called (fst (snd (call_selector probe_selector [VNum 5] new_selectorState
                                   (initial_world 0))))"
    using a by (simp add: call_selector_unfold never_called_def split: prod.splits sum.splits)
  from d r f t a p f' n step called show ?thesis
    by (intro conjI) simp_all
qed


section \<open>The structured selector\<close>

lemma structuredCombiner_xy:
  "structuredCombiner [''x'', ''y''] [a, b] w = (Inr (VObj (nextRef w) [(''x'', a), (''y'', b)]), w\<lparr>nextRef := Suc (nextRef w)\<rparr>)"
  by (simp add: structuredCombiner_def new_object_def key_at_def)

lemma strict_eq_refl_right: "strict_eq a b \<Longrightarrow> strict_eq b b"
  by (cases a; cases b) simp_all

lemma strict_eq_trans: "strict_eq a b \<Longrightarrow> strict_eq b c \<Longrightarrow> strict_eq a c"
  by (cases a; cases b; cases c) simp_all

lemma argsEquals_pair:
  "argsEquals [a, b] ps defaultValueEquals
     \<longleftrightarrow> strict_eq a (at_index ps 0) \<and> strict_eq b (at_index ps 1)"
  by (simp add: argsEquals_def every_def defaultValueEquals_def)

lemma compute_result_xy:
  "compute_result (xy_selector sel1 sel2) [a, b] st w =
     (if lastArgs (memoizedResultFunc_slot st) \<noteq> None
         \<and> argsEquals [a, b] (the (lastArgs (memoizedResultFunc_slot st))) defaultValueEquals
      then (Inr (lastResult (memoizedResultFunc_slot st)),
            st\<lparr>lastResultVar := lastResult (memoizedResultFunc_slot st)\<rparr>, w)
      else (Inr (VObj (nextRef w) [(''x'', a), (''y'', b)]),
            st\<lparr>memoizedResultFunc_slot :=
                  \<lparr>lastArgs = Some [a, b], lastResult = VObj (nextRef w) [(''x'', a), (''y'', b)]\<rparr>,
                recomputations := Suc (recomputations st),
                lastResultVar := VObj (nextRef w) [(''x'', a), (''y'', b)]\<rparr>,
            w\<lparr>nextRef := Suc (nextRef w)\<rparr>))"
  by (simp add: compute_result_def memoizedResultFunc_def memoize_def internalMemoize_def
      recomputationWrapper_def first_option_def xy_selector_def structuredCombiner_xy Let_def)

lemma dependenciesChecker_xy:
  assumes "sel1 args = Inr a" and "sel2 args = Inr b"
  shows "\<exists>st2 w2. dependenciesChecker (xy_selector sel1 sel2) args st w
                     = compute_result (xy_selector sel1 sel2) [a, b] st2 w2
           \<and> core st2 = core st"
proof -
  have c: "collect [sel1, sel2] args = Inr [a, b]"
    using assms by simp
  obtain st2 w2 where s:
    "inputStabilityCheckStatement None (map pure_function [sel1, sel2]) [] args [a, b] st w
       = (None, st2, w2)" "core st2 = core st"
    using check_statement_pure [OF c, of None "[]" "[a, b]" st w] by blast
  have "apply_each [pure_function sel1, pure_function sel2] args w = (Inr [a, b], w)"
    using apply_each_pure [of "[sel1, sel2]" args w] c by simp
  then have "dependenciesChecker (xy_selector sel1 sel2) args st w
                     = compute_result (xy_selector sel1 sel2) [a, b] st2 w2"
    using s(1) by (simp add: dependenciesChecker_def xy_selector_def)
  with s(2) show ?thesis by blast
qed


lemma xy_cached_slot:
  "memoizedResultFunc_slot st' = memoizedResultFunc_slot st \<Longrightarrow> xy_cached st' = xy_cached st"
  by (simp only: xy_cached_def)

lemma xy_cached_core:
  "core st' = core st \<Longrightarrow> xy_cached st' = xy_cached st"
  by (rule xy_cached_slot) (simp add: core_def)

lemma call_xy_first:
  assumes miss: "\<not> answered_from_slot args st"
      and vals: "sel1 args = Inr a" "sel2 args = Inr b"
      and inv: "xy_cached st"
      and refl: "strict_eq a a" "strict_eq b b"
  shows "\<exists>ref a' b' s1 w1.
           call_selector (xy_selector sel1 sel2) args st w
             = (Inr (VObj ref [(''x'', a'), (''y'', b')]), s1, w1)
         \<and> strict_eq a a' \<and> strict_eq b b'
         \<and> memoizedResultFunc_slot s1
             = \<lparr>lastArgs = Some [a', b'], lastResult = VObj ref [(''x'', a'), (''y'', b')]\<rparr>
         \<and> selector_slot s1
             = \<lparr>lastArgs = Some args, lastResult = VObj ref [(''x'', a'), (''y'', b')]\<rparr>
         \<and> recomputations s1 \<le> Suc (recomputations st)
         \<and> (lastArgs (memoizedResultFunc_slot st) = None
              \<longrightarrow> a' = a \<and> b' = b \<and> recomputations s1 = Suc (recomputations st))"
proof -
  obtain st2 w2 where d: "dependenciesChecker (xy_selector sel1 sel2) args st w
                     = compute_result (xy_selector sel1 sel2) [a, b] st2 w2"
      and c: "core st2 = core st"
    using dependenciesChecker_xy [where ?sel1.0 = sel1 and ?sel2.0 = sel2 and args = args
        and a = a and b = b and st = st and w = w] vals by blast
  have ms: "memoizedResultFunc_slot st2 = memoizedResultFunc_slot st"
      and rc: "recomputations st2 = recomputations st"
    using c by (simp_all add: core_def)
  show ?thesis
  proof (cases "lastArgs (memoizedResultFunc_slot st) \<noteq> None
         \<and> argsEquals [a, b] (the (lastArgs (memoizedResultFunc_slot st))) defaultValueEquals")
    case True
    then obtain ps where ps: "lastArgs (memoizedResultFunc_slot st) = Some ps"
        and eq: "argsEquals [a, b] ps defaultValueEquals"
      by auto
    from inv ps obtain ref where l: "length ps = 2"
        and r: "lastResult (memoizedResultFunc_slot st) = VObj ref [(''x'', ps ! 0), (''y'', ps ! 1)]"
      by (auto simp add: xy_cached_def split: val.splits)
    from l obtain p0 p1 where p: "ps = [p0, p1]"
      by (cases ps; cases "tl ps") auto
    have slot: "memoizedResultFunc_slot st
                  = \<lparr>lastArgs = Some [p0, p1], lastResult = VObj ref [(''x'', p0), (''y'', p1)]\<rparr>"
      using ps r p by (cases "memoizedResultFunc_slot st") simp
    have e2: "strict_eq a p0" "strict_eq b p1"
      using eq p by (simp_all add: argsEquals_pair at_index_def)
    show ?thesis
      using miss True e2 slot rc ms ps
      by (simp add: call_selector_unfold d compute_result_xy)
  next
    case False
    show ?thesis
      using miss False refl rc ms
      by (auto simp add: call_selector_unfold d compute_result_xy)
  qed
qed

lemma call_xy_again:
  assumes vals: "sel1 args = Inr a" "sel2 args = Inr b"
      and same: "strict_eq a a'" "strict_eq b b'"
      and memo: "memoizedResultFunc_slot st = \<lparr>lastArgs = Some [a', b'], lastResult = obj\<rparr>"
      and slot: "lastResult (selector_slot st) = obj"
  shows "fst (call_selector (xy_selector sel1 sel2) args st w) = Inr obj
       \<and> recomputations (fst (snd (call_selector (xy_selector sel1 sel2) args st w)))
           = recomputations st"
proof (cases "answered_from_slot args st")
  case True
  then show ?thesis using slot by (simp add: call_selector_unfold)
next
  case False
  obtain st2 w2 where d: "dependenciesChecker (xy_selector sel1 sel2) args st w
                     = compute_result (xy_selector sel1 sel2) [a, b] st2 w2"
      and c: "core st2 = core st"
    using dependenciesChecker_xy [where ?sel1.0 = sel1 and ?sel2.0 = sel2 and args = args
        and a = a and b = b and st = st and w = w] vals by blast
  have ms: "memoizedResultFunc_slot st2 = memoizedResultFunc_slot st"
      and rc: "recomputations st2 = recomputations st"
    using c by (simp_all add: core_def)
  show ?thesis
    using False same
    by (simp add: call_selector_unfold d compute_result_xy ms rc memo argsEquals_pair at_index_def)
qed

lemma xy_cached_call:
  assumes "xy_cached st"
  shows "xy_cached (fst (snd (call_selector (xy_selector sel1 sel2) args st w)))"
proof (cases "answered_from_slot args st")
  case True
  then show ?thesis using assms by (simp add: call_selector_unfold)
next
  case False
  show ?thesis
  proof (cases "collect [sel1, sel2] args")
    case (Inl e)
    have "apply_each [pure_function sel1, pure_function sel2] args w = (Inl e, w)"
      using apply_each_pure [of "[sel1, sel2]" args w] Inl by simp
    then have "dependenciesChecker (xy_selector sel1 sel2) args st w = (Inl e, st, w)"
      by (simp add: dependenciesChecker_def xy_selector_def)
    then have "memoizedResultFunc_slot (fst (snd (call_selector (xy_selector sel1 sel2) args st w)))
                  = memoizedResultFunc_slot st"
      using False by (simp add: call_selector_unfold)
    then show ?thesis
      using assms xy_cached_slot by blast
  next
    case (Inr params)
    then obtain a b where v: "sel1 args = Inr a" "sel2 args = Inr b"
      by (auto split: sum.splits)
    obtain st2 w2 where d: "dependenciesChecker (xy_selector sel1 sel2) args st w
                     = compute_result (xy_selector sel1 sel2) [a, b] st2 w2"
      and c: "core st2 = core st"
      using dependenciesChecker_xy [where ?sel1.0 = sel1 and ?sel2.0 = sel2 and args = args
        and a = a and b = b and st = st and w = w] v by blast
    have i2: "xy_cached st2"
      using xy_cached_core [OF c] assms by simp
    have "xy_cached (fst (snd (compute_result (xy_selector sel1 sel2) [a, b] st2 w2)))"
    proof (cases "lastArgs (memoizedResultFunc_slot st2) \<noteq> None
         \<and> argsEquals [a, b] (the (lastArgs (memoizedResultFunc_slot st2))) defaultValueEquals")
      case True
      then have "memoizedResultFunc_slot (fst (snd (compute_result (xy_selector sel1 sel2) [a, b] st2 w2)))
                  = memoizedResultFunc_slot st2"
        by (simp add: compute_result_xy)
      then show ?thesis using i2 xy_cached_slot by blast
    next
      case False
      then show ?thesis
        by (auto simp add: compute_result_xy xy_cached_def)
    qed
    moreover have "memoizedResultFunc_slot (fst (snd (call_selector (xy_selector sel1 sel2) args st w)))
        = memoizedResultFunc_slot (fst (snd (compute_result (xy_selector sel1 sel2) [a, b] st2 w2)))"
      using False
      by (simp add: call_selector_unfold d split: prod.splits sum.splits)
    ultimately show ?thesis
      using xy_cached_slot by blast
  qed
qed


lemma own_property_order_xy:
  "own_property_order [(''x'', a), (''y'', b)] = [(''x'', a), (''y'', b)]"
  by (simp add: own_property_order_def array_index_def is_digit_def)

lemma own_property_order_index_first:
  "own_property_order [(''b'', p), (''10'', q), (''2'', r), (''01'', s)]
     = [(''2'', r), (''10'', q), (''b'', p), (''01'', s)]"
  by (simp add: own_property_order_def array_index_def is_digit_def)

lemma createStructuredSelector_xy_selector:
  "createStructuredSelector
     (AObj [(''x'', AFunc n1 (pure_function sel1)), (''y'', AFunc n2 (pure_function sel2))])
     createSelector = Inr (xy_selector sel1 sel2)"
  by (simp add: createStructuredSelector_def own_property_order_xy property_of_def
        createSelector_def createSelectorCreator_def take_resultFunc_def pop_def xy_selector_def
        no_options_def getDependencies_def dependencies_of_def every_def
        List.map_filter_simps Let_def)

lemma xy_consistent_new: "xy_consistent sel1 sel2 new_selectorState"
  by (simp add: xy_consistent_def new_selectorState_def new_slot_def)

lemma xy_consistent_throws:
  assumes "collect [sel1, sel2] args = Inl e"
  shows "xy_consistent sel1 sel2 (st\<lparr>selector_slot := selector_slot st\<lparr>lastArgs := Some args\<rparr>\<rparr>)"
  using assms by (simp only: xy_consistent_def) simp

lemma xy_consistent_returns:
  assumes "collect [sel1, sel2] args = Inr [a, b]"
      and "memoizedResultFunc_slot st' = \<lparr>lastArgs = Some [a', b'], lastResult = obj\<rparr>"
      and "strict_eq a a' \<or> a = a'" and "strict_eq b b' \<or> b = b'"
  shows "xy_consistent sel1 sel2 (st'\<lparr>selector_slot := \<lparr>lastArgs = Some args, lastResult = obj\<rparr>\<rparr>)"
  using assms by (simp only: xy_consistent_def) simp

lemma xy_consistent_call:
  assumes con: "xy_consistent sel1 sel2 st" and inv: "xy_cached st"
  shows "xy_consistent sel1 sel2 (fst (snd (call_selector (xy_selector sel1 sel2) args st w)))"
proof (cases "answered_from_slot args st")
  case True
  then show ?thesis using con by (simp add: call_selector_unfold)
next
  case False
  show ?thesis
  proof (cases "collect [sel1, sel2] args")
    case (Inl e)
    have "apply_each [pure_function sel1, pure_function sel2] args w = (Inl e, w)"
      using apply_each_pure [of "[sel1, sel2]" args w] Inl by simp
    then have "dependenciesChecker (xy_selector sel1 sel2) args st w = (Inl e, st, w)"
      by (simp add: dependenciesChecker_def xy_selector_def)
    then have "fst (snd (call_selector (xy_selector sel1 sel2) args st w))
                 = st\<lparr>selector_slot := selector_slot st\<lparr>lastArgs := Some args\<rparr>\<rparr>"
      using False by (simp add: call_selector_unfold)
    then show ?thesis
      using xy_consistent_throws [OF Inl] by simp
  next
    case (Inr params)
    then obtain a b where v: "sel1 args = Inr a" "sel2 args = Inr b" and p: "params = [a, b]"
      by (auto split: sum.splits)
    have col: "collect [sel1, sel2] args = Inr [a, b]"
      using Inr p by simp
    obtain st2 w2 where d: "dependenciesChecker (xy_selector sel1 sel2) args st w
                     = compute_result (xy_selector sel1 sel2) [a, b] st2 w2"
      and c: "core st2 = core st"
      using dependenciesChecker_xy [where ?sel1.0 = sel1 and ?sel2.0 = sel2 and args = args
        and a = a and b = b and st = st and w = w] v by blast
    have ms: "memoizedResultFunc_slot st2 = memoizedResultFunc_slot st"
      using c by (simp add: core_def)
    show ?thesis
    proof (cases "lastArgs (memoizedResultFunc_slot st) \<noteq> None
         \<and> argsEquals [a, b] (the (lastArgs (memoizedResultFunc_slot st))) defaultValueEquals")
      case True
      then obtain ps where ps: "lastArgs (memoizedResultFunc_slot st) = Some ps"
          and eq: "argsEquals [a, b] ps defaultValueEquals"
        by auto
      from inv ps obtain ref where l: "length ps = 2"
          and r: "lastResult (memoizedResultFunc_slot st) = VObj ref [(''x'', ps ! 0), (''y'', ps ! 1)]"
        by (auto simp add: xy_cached_def split: val.splits)
      from l obtain p0 p1 where pp: "ps = [p0, p1]"
        by (cases ps; cases "tl ps") auto
      have slot: "memoizedResultFunc_slot st
                    = \<lparr>lastArgs = Some [p0, p1], lastResult = VObj ref [(''x'', p0), (''y'', p1)]\<rparr>"
        using ps r pp by (cases "memoizedResultFunc_slot st") simp
      have e2: "strict_eq a p0" "strict_eq b p1"
        using eq pp by (simp_all add: argsEquals_pair at_index_def)
      let ?obj = "VObj ref [(''x'', p0), (''y'', p1)]"
      have "fst (snd (call_selector (xy_selector sel1 sel2) args st w))
              = (st2\<lparr>lastResultVar := ?obj\<rparr>)
                  \<lparr>selector_slot := \<lparr>lastArgs = Some args, lastResult = ?obj\<rparr>\<rparr>"
        using False True slot ms
        by (simp add: call_selector_unfold d compute_result_xy)
      moreover have "memoizedResultFunc_slot (st2\<lparr>lastResultVar := ?obj\<rparr>)
                       = \<lparr>lastArgs = Some [p0, p1], lastResult = ?obj\<rparr>"
        using ms slot by simp
      ultimately show ?thesis
        using xy_consistent_returns [OF col, where a' = p0 and b' = p1 and obj = ?obj
            and st' = "st2\<lparr>lastResultVar := ?obj\<rparr>"] e2
        by simp
    next
      case False2: False
      let ?obj = "VObj (nextRef w2) [(''x'', a), (''y'', b)]"
      let ?st' = "st2\<lparr>memoizedResultFunc_slot := \<lparr>lastArgs = Some [a, b], lastResult = ?obj\<rparr>,
                     recomputations := Suc (recomputations st2), lastResultVar := ?obj\<rparr>"
      have "fst (snd (call_selector (xy_selector sel1 sel2) args st w))
              = ?st'\<lparr>selector_slot := \<lparr>lastArgs = Some args, lastResult = ?obj\<rparr>\<rparr>"
        using False False2 ms
        by (auto simp add: call_selector_unfold d compute_result_xy)
      moreover have "memoizedResultFunc_slot ?st' = \<lparr>lastArgs = Some [a, b], lastResult = ?obj\<rparr>"
        by simp
      ultimately show ?thesis
        using xy_consistent_returns [OF col, where a' = a and b' = b and obj = ?obj
            and st' = ?st']
        by simp
    qed
  qed
qed

lemma call_xy_stored:
  assumes hit: "answered_from_slot args st"
      and stored: "lastArgs (selector_slot st) = Some args"
      and con: "xy_consistent sel1 sel2 st" and inv: "xy_cached st"
      and vals: "sel1 args = Inr a" "sel2 args = Inr b"
      and refl: "strict_eq a a" "strict_eq b b"
  shows "\<exists>ref a' b'.
           call_selector (xy_selector sel1 sel2) args st w
             = (Inr (VObj ref [(''x'', a'), (''y'', b')]), st, w)
         \<and> strict_eq a a' \<and> strict_eq b b'
         \<and> memoizedResultFunc_slot st
             = \<lparr>lastArgs = Some [a', b'], lastResult = VObj ref [(''x'', a'), (''y'', b')]\<rparr>
         \<and> lastResult (selector_slot st) = VObj ref [(''x'', a'), (''y'', b')]"
proof -
  have col: "collect [sel1, sel2] args = Inr [a, b]"
    using vals by simp
  from con stored col obtain ps where ps: "lastArgs (memoizedResultFunc_slot st) = Some ps"
      and same: "lastResult (selector_slot st) = lastResult (memoizedResultFunc_slot st)"
      and rel: "list_all2 (\<lambda>v p. strict_eq v p \<or> v = p) [a, b] ps"
    by (simp only: xy_consistent_def) (auto split: option.splits)
  from inv ps obtain ref where l: "length ps = 2"
      and r: "lastResult (memoizedResultFunc_slot st) = VObj ref [(''x'', ps ! 0), (''y'', ps ! 1)]"
    by (auto simp add: xy_cached_def split: val.splits)
  from l obtain p0 p1 where pp: "ps = [p0, p1]"
    by (cases ps; cases "tl ps") auto
  have slot: "memoizedResultFunc_slot st
                = \<lparr>lastArgs = Some [p0, p1], lastResult = VObj ref [(''x'', p0), (''y'', p1)]\<rparr>"
    using ps r pp by (cases "memoizedResultFunc_slot st") simp
  have e: "strict_eq a p0" "strict_eq b p1"
    using rel pp refl by auto
  have "call_selector (xy_selector sel1 sel2) args st w
          = (Inr (VObj ref [(''x'', p0), (''y'', p1)]), st, w)"
    using hit same slot by (simp add: call_selector_unfold)
  with e slot same show ?thesis by simp
qed

text \<open>
  Two consecutive calls of \<open>createStructuredSelector({x: sel1, y: sel2})\<close>, with
  \<open>sel1\<close> and \<open>sel2\<close> functions of their arguments alone, in any state that calls
  can bring the selector to (\<open>xy_cached\<close> and \<open>xy_consistent\<close> hold of the new
  selector and every call keeps them). The values the two selectors extract from the
  arguments of the second call are identical (\<open>===\<close>) to those of the first; and where
  the first call is answered from the selector's own slot, its arguments are the ones the
  slot holds. Then the first call returns an object \<open>{x: a, y: b}\<close> whose values are
  identical to \<open>sel1(state)\<close> and \<open>sel2(state)\<close>, the second call returns the object
  of the first call, reference included, and the result function does not run for it. On a
  new selector, \<open>recomputations()\<close> is 1 after the two calls.
\<close>

lemma structured_selector_same_reference:
  fixes sel1 sel2 :: "val list \<Rightarrow> exn + val" and w :: "'u world"
  assumes made: "createStructuredSelector
                   (AObj [(''x'', AFunc n1 (pure_function sel1)),
                          (''y'', AFunc n2 (pure_function sel2))]) createSelector
                 = Inr selector"
      and reached: "xy_cached st" "xy_consistent sel1 sel2 st"
      and stored: "answered_from_slot args1 st \<longrightarrow> lastArgs (selector_slot st) = Some args1"
      and first: "sel1 args1 = Inr x1" "sel2 args1 = Inr y1"
      and second: "sel1 args2 = Inr x2" "sel2 args2 = Inr y2"
      and same: "strict_eq x2 x1" "strict_eq y2 y1"
  shows "(case call_selector selector args1 st w of
            (r1, s1, w1) \<Rightarrow>
          (case call_selector selector args2 s1 w1 of
            (r2, s2, w2) \<Rightarrow>
              (\<exists>ref a b. r1 = Inr (VObj ref [(''x'', a), (''y'', b)])
                  \<and> strict_eq x1 a \<and> strict_eq y1 b
                  \<and> (lastArgs (memoizedResultFunc_slot st) = None \<longrightarrow> a = x1 \<and> b = y1))
              \<and> r2 = r1
              \<and> recomputations s2 = recomputations s1
              \<and> recomputations s1 \<le> Suc (recomputations st)
              \<and> (lastArgs (memoizedResultFunc_slot st) = None
                   \<longrightarrow> fst (recomputations_method [] s2 w2)
                         = Inr (VNum (int (Suc (recomputations st)))))))
       \<and> xy_cached new_selectorState \<and> xy_consistent sel1 sel2 new_selectorState
       \<and> (\<forall>args st (w :: 'u world).
             xy_cached st \<and> xy_consistent sel1 sel2 st
             \<longrightarrow> xy_cached (fst (snd (call_selector selector args st w)))
                 \<and> xy_consistent sel1 sel2 (fst (snd (call_selector selector args st w))))"
proof -
  have sel: "selector = xy_selector sel1 sel2"
    using made by (simp add: createStructuredSelector_xy_selector)
  have refl: "strict_eq x1 x1" "strict_eq y1 y1"
    using same strict_eq_refl_right by blast+
  have step: "\<exists>ref a b s1 w1.
        call_selector (xy_selector sel1 sel2) args1 st w
               = (Inr (VObj ref [(''x'', a), (''y'', b)]), s1, w1)
      \<and> strict_eq x1 a \<and> strict_eq y1 b
      \<and> memoizedResultFunc_slot s1
             = \<lparr>lastArgs = Some [a, b], lastResult = VObj ref [(''x'', a), (''y'', b)]\<rparr>
      \<and> lastResult (selector_slot s1) = VObj ref [(''x'', a), (''y'', b)]
      \<and> recomputations s1 \<le> Suc (recomputations st)
      \<and> (lastArgs (memoizedResultFunc_slot st) = None
              \<longrightarrow> a = x1 \<and> b = y1 \<and> recomputations s1 = Suc (recomputations st))"
  proof (cases "answered_from_slot args1 st")
    case True
    with stored have st: "lastArgs (selector_slot st) = Some args1" by simp
    obtain ref a b where
          "call_selector (xy_selector sel1 sel2) args1 st w
             = (Inr (VObj ref [(''x'', a), (''y'', b)]), st, w)"
          "strict_eq x1 a" "strict_eq y1 b"
          "memoizedResultFunc_slot st
             = \<lparr>lastArgs = Some [a, b], lastResult = VObj ref [(''x'', a), (''y'', b)]\<rparr>"
          "lastResult (selector_slot st) = VObj ref [(''x'', a), (''y'', b)]"
      using call_xy_stored [where ?sel1.0 = sel1 and ?sel2.0 = sel2 and args = args1 and st = st
          and a = x1 and b = y1 and w = w, OF True st reached(2) reached(1) first refl]
      by (elim exE conjE) (rule that, assumption+)
    then show ?thesis by auto
  next
    case False
    obtain ref a b s1 w1 where
          "call_selector (xy_selector sel1 sel2) args1 st w
               = (Inr (VObj ref [(''x'', a), (''y'', b)]), s1, w1)"
          "strict_eq x1 a" "strict_eq y1 b"
          "memoizedResultFunc_slot s1
             = \<lparr>lastArgs = Some [a, b], lastResult = VObj ref [(''x'', a), (''y'', b)]\<rparr>"
          "selector_slot s1
             = \<lparr>lastArgs = Some args1, lastResult = VObj ref [(''x'', a), (''y'', b)]\<rparr>"
          "recomputations s1 \<le> Suc (recomputations st)"
          "lastArgs (memoizedResultFunc_slot st) = None
              \<longrightarrow> a = x1 \<and> b = y1 \<and> recomputations s1 = Suc (recomputations st)"
      using call_xy_first [where ?sel1.0 = sel1 and ?sel2.0 = sel2 and args = args1 and st = st
          and a = x1 and b = y1 and w = w, OF False first reached(1) refl]
      by (elim exE conjE) (rule that, assumption+)
    then show ?thesis by auto
  qed
  then obtain ref a b s1 w1 where
        c1: "call_selector (xy_selector sel1 sel2) args1 st w
               = (Inr (VObj ref [(''x'', a), (''y'', b)]), s1, w1)"
    and eq: "strict_eq x1 a" "strict_eq y1 b"
    and memo: "memoizedResultFunc_slot s1
             = \<lparr>lastArgs = Some [a, b], lastResult = VObj ref [(''x'', a), (''y'', b)]\<rparr>"
    and sl: "lastResult (selector_slot s1) = VObj ref [(''x'', a), (''y'', b)]"
    and rc: "recomputations s1 \<le> Suc (recomputations st)"
    and new: "lastArgs (memoizedResultFunc_slot st) = None
              \<longrightarrow> a = x1 \<and> b = y1 \<and> recomputations s1 = Suc (recomputations st)"
    by (elim exE conjE) (rule that, assumption+)
  have eq2: "strict_eq x2 a" "strict_eq y2 b"
    using same eq strict_eq_trans by blast+
  obtain r2 s2 w2 where c2: "call_selector (xy_selector sel1 sel2) args2 s1 w1 = (r2, s2, w2)"
    by (cases "call_selector (xy_selector sel1 sel2) args2 s1 w1")
  have again: "r2 = Inr (VObj ref [(''x'', a), (''y'', b)])" "recomputations s2 = recomputations s1"
    using call_xy_again [where ?sel1.0 = sel1 and ?sel2.0 = sel2 and args = args2 and st = s1
        and a = x2 and b = y2 and a' = a and b' = b and w = w1
        and obj = "VObj ref [(''x'', a), (''y'', b)]"] second eq2 memo sl c2
    by simp_all
  have calls: "(case call_selector selector args1 st w of
            (r1, s1, w1) \<Rightarrow>
          (case call_selector selector args2 s1 w1 of
            (r2, s2, w2) \<Rightarrow>
              (\<exists>ref a b. r1 = Inr (VObj ref [(''x'', a), (''y'', b)])
                  \<and> strict_eq x1 a \<and> strict_eq y1 b
                  \<and> (lastArgs (memoizedResultFunc_slot st) = None \<longrightarrow> a = x1 \<and> b = y1))
              \<and> r2 = r1
              \<and> recomputations s2 = recomputations s1
              \<and> recomputations s1 \<le> Suc (recomputations st)
              \<and> (lastArgs (memoizedResultFunc_slot st) = None
                   \<longrightarrow> fst (recomputations_method [] s2 w2)
                         = Inr (VNum (int (Suc (recomputations st)))))))"
    using eq rc new again by (simp add: sel c1 c2 recomputations_method_def)
  have fresh: "xy_cached new_selectorState" "xy_consistent sel1 sel2 new_selectorState"
    by (simp add: xy_cached_def new_selectorState_def new_slot_def) (rule xy_consistent_new)
  have kept: "\<forall>args st (w :: 'u world).
             xy_cached st \<and> xy_consistent sel1 sel2 st
             \<longrightarrow> xy_cached (fst (snd (call_selector selector args st w)))
                 \<and> xy_consistent sel1 sel2 (fst (snd (call_selector selector args st w)))"
    unfolding sel by (intro allI impI conjI) (auto intro: xy_cached_call xy_consistent_call)
  from calls fresh kept show ?thesis by blast
qed


end
